theory Spec2Isabelle
  imports Main "HOL-Library.Sublist"
begin

section \<open>The video generation endpoint of \<^verbatim>\<open>server.cjs\<close>\<close>

text \<open>
  The development embeds the handler of \<^verbatim>\<open>POST /generate-video\<close> and the three
  generators it dispatches to (\<^verbatim>\<open>generateVeoVideo\<close>, \<^verbatim>\<open>generateHedraVideo\<close>,
  \<^verbatim>\<open>generateKlingVideo\<close>).

  JavaScript strings are modelled as \<^typ>\<open>string\<close>, a list of code units. A field of the
  request body that may be missing is a \<^typ>\<open>string option\<close>: \<open>None\<close> stands for
  \<^verbatim>\<open>undefined\<close>, and a field that is present is taken to hold a JSON string.
\<close>

subsection \<open>JavaScript primitives used by the handler\<close>

text \<open>Truthiness of a possibly missing string: \<^verbatim>\<open>undefined\<close> and \<^verbatim>\<open>''\<close> are falsy.\<close>

fun truthy :: "string option \<Rightarrow> bool" where
  "truthy None = False"
| "truthy (Some s) = (s \<noteq> [])"

text \<open>\<^verbatim>\<open>a || b\<close>: the left operand when it is truthy, the right operand otherwise.\<close>

definition or_js :: "string option \<Rightarrow> string option \<Rightarrow> string option" where
  "or_js a b = (if truthy a then a else b)"

text \<open>\<^verbatim>\<open>a || ''\<close> at the end of a chain: the result is always a string.\<close>

fun or_empty :: "string option \<Rightarrow> string" where
  "or_empty None = []"
| "or_empty (Some s) = s"

text \<open>Array indexing: an index past the end reads \<^verbatim>\<open>undefined\<close>.\<close>

definition at_js :: "'a list \<Rightarrow> nat \<Rightarrow> 'a option" where
  "at_js xs i = (if i < length xs then Some (xs ! i) else None)"

text \<open>
  \<^verbatim>\<open>String.prototype.split(sep)\<close> for a string separator: the string is scanned from the
  left; at each position where the separator matches, the piece collected so far is
  closed and the scan continues behind the separator. An empty separator splits into
  the single code units.
\<close>

function split_at :: "string \<Rightarrow> string \<Rightarrow> string list" where
  "split_at sep [] = [[]]"
| "split_at sep (c # cs) =
     (if sep \<noteq> [] \<and> prefix sep (c # cs)
      then [] # split_at sep (drop (length sep) (c # cs))
      else (case split_at sep cs of
              [] \<Rightarrow> [[c]]
            | p # ps \<Rightarrow> (c # p) # ps))"
  by pat_completeness auto
termination
  by (relation "measure (\<lambda>(sep, s). length s)") (auto simp: neq_Nil_conv)

definition split_js :: "string \<Rightarrow> string \<Rightarrow> string list" where
  "split_js sep s = (if sep = [] then map (\<lambda>c. [c]) s else split_at sep s)"

text \<open>\<^verbatim>\<open>String.prototype.startsWith\<close> is \<^const>\<open>prefix\<close>.\<close>

subsection \<open>Request normalisation in the handler\<close>

text \<open>The fields the handler reads from \<^verbatim>\<open>req.body\<close>.\<close>

record raw_request =
  scriptText :: "string option"
  direction :: "string option"
  referenceImage :: "string option"
  prompt :: "string option"
  imageUrl :: "string option"
  country :: "string option"
  provider :: "string option"
  videoStyle :: "string option"
  voiceAccent :: "string option"
  model :: "string option"

text \<open>The two literal markers \<^verbatim>\<open>. Script: "\<close> and \<^verbatim>\<open>". Style:\<close>.\<close>

definition script_marker :: string where
  "script_marker = ''. Script: '' @ [CHR 0x22]"

definition style_marker :: string where
  "style_marker = CHR 0x22 # ''. Style:''"

text \<open>\<^verbatim>\<open>prompt ? prompt.split('. Script: "')[1]?.split('". Style:')[0] : null\<close>\<close>

definition script_of_prompt :: "string option \<Rightarrow> string option" where
  "script_of_prompt p =
     (case p of
        None \<Rightarrow> None
      | Some s \<Rightarrow>
          if s = [] then None
          else (case at_js (split_js script_marker s) 1 of
                  None \<Rightarrow> None
                | Some t \<Rightarrow> at_js (split_js style_marker t) 0))"

text \<open>\<^verbatim>\<open>prompt ? prompt.split('. Script: "')[0] : null\<close>\<close>

definition direction_of_prompt :: "string option \<Rightarrow> string option" where
  "direction_of_prompt p =
     (case p of
        None \<Rightarrow> None
      | Some s \<Rightarrow> if s = [] then None else at_js (split_js script_marker s) 0)"

definition finalScriptText :: "raw_request \<Rightarrow> string" where
  "finalScriptText r =
     or_empty (or_js (or_js (scriptText r) (script_of_prompt (prompt r))) (prompt r))"

definition finalDirection :: "raw_request \<Rightarrow> string" where
  "finalDirection r = or_empty (or_js (direction r) (direction_of_prompt (prompt r)))"

definition finalReferenceImage :: "raw_request \<Rightarrow> string option" where
  "finalReferenceImage r = or_js (referenceImage r) (imageUrl r)"

subsection \<open>Errors\<close>

text \<open>
  \<open>MissingField m\<close> is the handler's status 400 reply with the error text \<open>m\<close>;
  \<open>Failure m\<close> is a thrown \<^verbatim>\<open>Error\<close> with message \<open>m\<close>, which the handler's
  \<^verbatim>\<open>catch\<close> turns into a status 500 reply.
\<close>

datatype error = MissingField string | Failure string

text \<open>The names of the specification's taxonomy for the messages the code throws.\<close>

definition ProviderTimeout :: error where
  "ProviderTimeout = Failure ''Veo video generation timed out''"

definition NoArtifact :: error where
  "NoArtifact = Failure ''No video data in completed operation''"

text \<open>A template literal prints a missing value as \<^verbatim>\<open>undefined\<close>.\<close>

fun template :: "string option \<Rightarrow> string" where
  "template None = ''undefined''"
| "template (Some s) = s"

definition ProviderOperationError :: "string option \<Rightarrow> error" where
  "ProviderOperationError msg = Failure (''Veo generation failed: '' @ template msg)"

definition InvalidImage :: error where
  "InvalidImage = Failure ''Invalid reference image data''"

text \<open>The validation of the handler: the two status 400 replies, then the canonical request.\<close>

record generation_request =
  req_scriptText :: string
  req_direction :: string
  req_referenceImage :: string
  req_country :: "string option"
  req_provider :: "string option"
  req_videoStyle :: "string option"
  req_voiceAccent :: "string option"
  req_model :: "string option"

definition normalize_request :: "raw_request \<Rightarrow> error + generation_request" where
  "normalize_request r =
     (if finalScriptText r = []
      then Inl (MissingField ''Missing required fields: scriptText or prompt'')
      else (case finalReferenceImage r of
              None \<Rightarrow> Inl (MissingField ''Missing required fields: referenceImage or imageUrl'')
            | Some img \<Rightarrow>
                if img = []
                then Inl (MissingField ''Missing required fields: referenceImage or imageUrl'')
                else Inr \<lparr> req_scriptText = finalScriptText r,
                           req_direction = finalDirection r,
                           req_referenceImage = img,
                           req_country = country r,
                           req_provider = provider r,
                           req_videoStyle = videoStyle r,
                           req_voiceAccent = voiceAccent r,
                           req_model = model r \<rparr>))"

subsection \<open>Object literals used as lookup tables\<close>

text \<open>
  \<^verbatim>\<open>table[key]\<close> on an object literal finds the literal's own entries and, for the
  names below, the members every object inherits from \<^verbatim>\<open>Object.prototype\<close>.
\<close>

datatype 'a member = Own 'a | Inherited string | Absent

definition object_prototype_names :: "string list" where
  "object_prototype_names =
     [''constructor'', ''__defineGetter__'', ''__defineSetter__'', ''hasOwnProperty'',
      ''__lookupGetter__'', ''__lookupSetter__'', ''isPrototypeOf'',
      ''propertyIsEnumerable'', ''toString'', ''valueOf'', ''__proto__'',
      ''toLocaleString'']"

definition lookup :: "(string \<times> 'a) list \<Rightarrow> string \<Rightarrow> 'a member" where
  "lookup table key =
     (case map_of table key of
        Some v \<Rightarrow> Own v
      | None \<Rightarrow> if key \<in> set object_prototype_names then Inherited key else Absent)"

text \<open>\<^verbatim>\<open>String.prototype.replace\<close> with a string pattern replaces the first occurrence.\<close>

fun replace_first :: "string \<Rightarrow> string \<Rightarrow> string \<Rightarrow> string" where
  "replace_first pat rep [] = (if pat = [] then rep else [])"
| "replace_first pat rep (c # cs) =
     (if prefix pat (c # cs) then rep @ drop (length pat) (c # cs)
      else c # replace_first pat rep cs)"

subsection \<open>The accent tables of \<^verbatim>\<open>generateVeoVideo\<close>\<close>

definition seedMap :: "(string \<times> int) list" where
  "seedMap =
     [(''american'', 12345), (''british'', 23456), (''australian'', 34567),
      (''indian'', 45678), (''south-african'', 56789), (''american-female'', 67890),
      (''british-female'', 78901), (''australian-female'', 89012),
      (''indian-female'', 90123), (''south-african-female'', 11111)]"

text \<open>\<^verbatim>\<open>seedMap[voiceAccent] || 12345\<close>: an inherited member is truthy and is kept.\<close>

definition voiceSeed :: "string \<Rightarrow> int member" where
  "voiceSeed accent =
     (case lookup seedMap accent of
        Own n \<Rightarrow> if n = 0 then Own 12345 else Own n
      | Inherited k \<Rightarrow> Inherited k
      | Absent \<Rightarrow> Own 12345)"

definition voiceDescriptions :: "(string \<times> string) list" where
  "voiceDescriptions =
     [(''american'', ''American accent''), (''british'', ''British accent''),
      (''australian'', ''Australian accent''), (''indian'', ''Indian accent''),
      (''south-african'', ''South African accent''),
      (''american-female'', ''American female accent''),
      (''british-female'', ''British female accent''),
      (''australian-female'', ''Australian female accent''),
      (''indian-female'', ''Indian female accent''),
      (''south-african-female'', ''South African female accent'')]"

text \<open>\<^verbatim>\<open>table[key] || fallback\<close> for a table of strings.\<close>

definition lookup_or :: "(string \<times> string) list \<Rightarrow> string \<Rightarrow> string \<Rightarrow> string member" where
  "lookup_or table key fallback =
     (case lookup table key of
        Own s \<Rightarrow> if s = [] then Own fallback else Own s
      | Inherited k \<Rightarrow> Inherited k
      | Absent \<Rightarrow> Own fallback)"

definition voiceDescription :: "string \<Rightarrow> string member" where
  "voiceDescription accent = lookup_or voiceDescriptions accent ''American accent''"

definition negativeVoiceMap :: "(string \<times> string) list" where
  "negativeVoiceMap =
     [(''south-african'', ''American accent, British accent, Australian accent, Indian accent''),
      (''american'', ''British accent, Australian accent, Indian accent, South African accent''),
      (''british'', ''American accent, Australian accent, Indian accent, South African accent''),
      (''australian'', ''American accent, British accent, Indian accent, South African accent''),
      (''indian'', ''American accent, British accent, Australian accent, South African accent'')]"

text \<open>\<^verbatim>\<open>negativeVoiceMap[voiceAccent.replace('-female', '')] || ''\<close>\<close>

definition negativeVoice :: "string \<Rightarrow> string member" where
  "negativeVoice accent = lookup_or negativeVoiceMap (replace_first ''-female'' [] accent) []"

definition ugcTalking :: string where
  "ugcTalking = ''Authentic user-generated content style, selfie camera angle, natural lighting, casual setting, direct eye contact with camera. NO text overlays, NO titles, NO captions, NO subtitles on screen - clean visuals only''"

definition styleModifiers :: "(string \<times> string) list" where
  "styleModifiers =
     [(''UGC Talking'', ugcTalking),
      (''Narrative Voiceover'', ''Cinematic storytelling style, smooth camera movements, establishing shots, documentary aesthetic, ambient lighting. NO text overlays, NO titles, NO captions, NO subtitles on screen - clean visuals only''),
      (''Cinematic'', ''High-end commercial production, dramatic cinematic lighting, professional cinematography, premium aesthetic, shallow depth of field. NO text overlays, NO titles, NO captions, NO subtitles on screen - clean visuals only'')]"

text \<open>\<^verbatim>\<open>styleModifiers[videoStyle] || styleModifiers['UGC Talking']\<close>\<close>

definition styleModifier :: "string \<Rightarrow> string member" where
  "styleModifier style = lookup_or styleModifiers style ugcTalking"

subsection \<open>The reference image\<close>

text \<open>The class \<^verbatim>\<open>\w\<close> of the regular expressions: letters, digits and the underscore.\<close>

definition word_char :: "char \<Rightarrow> bool" where
  "word_char c \<longleftrightarrow>
     c \<in> set ''ABCDEFGHIJKLMNOPQRSTUVWXYZabcdefghijklmnopqrstuvwxyz0123456789_''"

text \<open>
  The match of \<^verbatim>\<open>/^data:(image\/\w+);base64,/\<close>: the captured group and the text behind
  the match. The run of word characters is maximal, since the next character of a match
  is \<^verbatim>\<open>;\<close>.
\<close>

definition image_header :: "string \<Rightarrow> (string \<times> string) option" where
  "image_header s =
     (if prefix ''data:image/'' s
      then (let t = drop (length ''data:image/'') s;
                w = takeWhile word_char t;
                u = dropWhile word_char t
            in if w \<noteq> [] \<and> prefix '';base64,'' u
               then Some (''image/'' @ w, drop (length '';base64,'') u)
               else None)
      else None)"

text \<open>\<^verbatim>\<open>mimeMatch ? mimeMatch[1] : 'image/png'\<close>\<close>

definition mimeType :: "string \<Rightarrow> string" where
  "mimeType img = (case image_header img of Some (m, rest) \<Rightarrow> m | None \<Rightarrow> ''image/png'')"

text \<open>\<^verbatim>\<open>referenceImage.replace(/^data:image\/\w+;base64,/, '')\<close>\<close>

definition base64Data :: "string \<Rightarrow> string" where
  "base64Data img = (case image_header img of Some (m, rest) \<Rightarrow> rest | None \<Rightarrow> img)"

subsection \<open>Base64 text of a buffer\<close>

text \<open>\<^verbatim>\<open>Buffer.toString('base64')\<close>; a buffer is a list of bytes, numbers below 256.\<close>

definition base64_alphabet :: string where
  "base64_alphabet = ''ABCDEFGHIJKLMNOPQRSTUVWXYZabcdefghijklmnopqrstuvwxyz0123456789+/''"

definition base64_digit :: "nat \<Rightarrow> char" where
  "base64_digit n = base64_alphabet ! (n mod 64)"

fun toBase64 :: "nat list \<Rightarrow> string" where
  "toBase64 [] = []"
| "toBase64 [a] =
     [base64_digit (a div 4), base64_digit ((a mod 4) * 16), CHR ''='', CHR ''='']"
| "toBase64 [a, b] =
     [base64_digit (a div 4), base64_digit ((a mod 4) * 16 + b div 16),
      base64_digit ((b mod 16) * 4), CHR ''='']"
| "toBase64 (a # b # c # rest) =
     [base64_digit (a div 4), base64_digit ((a mod 4) * 16 + b div 16),
      base64_digit ((b mod 16) * 4 + c div 64), base64_digit (c mod 64)] @ toBase64 rest"

definition data_uri :: "string \<Rightarrow> string" where
  "data_uri payload = ''data:video/mp4;base64,'' @ payload"

text \<open>A number in a template literal is printed in decimal.\<close>

fun decimal :: "nat \<Rightarrow> string" where
  "decimal n =
     (if n < 10 then [char_of (48 + n)]
      else decimal (n div 10) @ [char_of (48 + n mod 10)])"

subsection \<open>The remote services\<close>

text \<open>
  The outcome of one \<^verbatim>\<open>fetch\<close> with the body read: the call threw (\<open>Rejected\<close> with the
  message), the reply had a status outside 200..299 (\<open>NotOk\<close> with the status and the
  body as the code reads it there), or the reply was fine (\<open>Ok\<close> with the parsed body).
\<close>

datatype ('e, 'a) reply = Rejected string | NotOk nat 'e | Ok 'a

record api_error =
  message :: "string option"

text \<open>The reply of \<^verbatim>\<open>:predictLongRunning\<close>.\<close>

record operation =
  name :: "string option"
  op_error :: "api_error option"

record media =
  gcsUri :: "string option"
  bytesBase64Encoded :: "string option"

record veo_result =
  videos :: "media list option"
  predictions :: "media list option"

text \<open>
  The reply of \<^verbatim>\<open>:fetchPredictOperation\<close>; \<open>finished\<close> is the field \<^verbatim>\<open>done\<close>,
  \<open>poll_error\<close> the field \<^verbatim>\<open>error\<close>.
\<close>

record poll_data =
  finished :: bool
  poll_error :: "api_error option"
  response :: "veo_result option"

text \<open>The body \<^verbatim>\<open>generateVeoVideo\<close> submits.\<close>

record veo_request =
  promptText :: string
  imageBytes :: string
  imageMime :: string
  aspectRatio :: string
  resizeMode :: string
  sampleCount :: nat
  durationSeconds :: nat
  resolution :: string
  personGeneration :: string
  seed :: "int member"
  negativePrompt :: "string member"

text \<open>
  How the module finds a bearer token: the service account loaded at start (the token
  request may throw), else the variables \<^verbatim>\<open>VEO_ACCESS_TOKEN\<close> and \<^verbatim>\<open>VEO_PROJECT_ID\<close>,
  else nothing.
\<close>

datatype credential =
    ServiceAccount "string + string" string
  | AccessToken string "string option"
  | NoCredential

record hedra_status =
  status :: "string option"
  video_url :: "string option"

text \<open>
  Everything outside the process that a request talks to. \<open>poll n\<close> is the reply to the
  \<open>n\<close>-th poll of the operation, \<open>hedra_poll i\<close> the reply in round \<open>i\<close> of the Hedra
  loop; \<open>member_text\<close> is the text a template literal prints for a member inherited from
  \<^verbatim>\<open>Object.prototype\<close>.
\<close>

record backend =
  credentials :: credential
  submit :: "string \<Rightarrow> string \<Rightarrow> veo_request \<Rightarrow> (string, operation) reply"
  poll :: "nat \<Rightarrow> string \<Rightarrow> (string, poll_data) reply"
  fetchBlob :: "string \<Rightarrow> (unit, nat list) reply"
  member_text :: "string \<Rightarrow> string"
  hedra_character :: "string \<Rightarrow> string \<Rightarrow> (string option, string option) reply"
  hedra_video :: "string option \<Rightarrow> string \<Rightarrow> string \<Rightarrow> (string option, string option) reply"
  hedra_poll :: "nat \<Rightarrow> string option \<Rightarrow> (unit, hedra_status) reply"
  kling_key :: "string option"

text \<open>The remote calls of \<^verbatim>\<open>generateVeoVideo\<close>, in the order they are made.\<close>

datatype call = SubmitCall veo_request | PollCall string | FetchCall string

subsection \<open>Extracting the video from a completed operation\<close>

text \<open>\<open>logged c\<close> puts the call \<open>c\<close> in front of the calls of what follows it.\<close>

fun logged :: "call \<Rightarrow> 'a \<times> call list \<Rightarrow> 'a \<times> call list" where
  "logged c (res, calls) = (res, c # calls)"

text \<open>\<^verbatim>\<open>xs && xs.length > 0\<close>, then \<^verbatim>\<open>xs[0]\<close>.\<close>

fun first_entry :: "media list option \<Rightarrow> media option" where
  "first_entry None = None"
| "first_entry (Some []) = None"
| "first_entry (Some (m # ms)) = Some m"

text \<open>
  The \<^verbatim>\<open>try\<close> block around the fetch of a storage reference: a data URI when the
  reply is fine, nothing when the status is bad or the fetch throws.
\<close>

definition fetch_video :: "backend \<Rightarrow> string \<Rightarrow> string option \<times> call list" where
  "fetch_video env uri =
     (case fetchBlob env uri of
        Ok videoBuffer \<Rightarrow> (Some (data_uri (toBase64 videoBuffer)), [FetchCall uri])
      | NotOk st u \<Rightarrow> (None, [FetchCall uri])
      | Rejected msg \<Rightarrow> (None, [FetchCall uri]))"

text \<open>The block for \<^verbatim>\<open>response.videos\<close>: the storage reference first, then the inline bytes.\<close>

definition from_videos :: "backend \<Rightarrow> media option \<Rightarrow> string option \<times> call list" where
  "from_videos env entry =
     (case entry of
        None \<Rightarrow> (None, [])
      | Some videoResult \<Rightarrow>
          (let (fetched, calls) =
                 (if truthy (gcsUri videoResult)
                  then fetch_video env (or_empty (gcsUri videoResult))
                  else (None, []))
           in case fetched of
                Some v \<Rightarrow> (Some v, calls)
              | None \<Rightarrow>
                  if truthy (bytesBase64Encoded videoResult)
                  then (Some (data_uri (or_empty (bytesBase64Encoded videoResult))), calls)
                  else (None, calls)))"

text \<open>The block for \<^verbatim>\<open>response.predictions\<close>: the inline bytes first, then the storage reference.\<close>

definition from_predictions :: "backend \<Rightarrow> media option \<Rightarrow> string option \<times> call list" where
  "from_predictions env entry =
     (case entry of
        None \<Rightarrow> (None, [])
      | Some videoResult \<Rightarrow>
          if truthy (bytesBase64Encoded videoResult)
          then (Some (data_uri (or_empty (bytesBase64Encoded videoResult))), [])
          else if truthy (gcsUri videoResult)
          then fetch_video env (or_empty (gcsUri videoResult))
          else (None, []))"

definition extractVideo :: "backend \<Rightarrow> veo_result option \<Rightarrow> (error + string) \<times> call list" where
  "extractVideo env resp =
     (let (v, calls) = from_videos env (first_entry (case resp of None \<Rightarrow> None | Some r \<Rightarrow> videos r))
      in case v of
           Some uri \<Rightarrow> (Inr uri, calls)
         | None \<Rightarrow>
             (let (p, calls') =
                    from_predictions env
                      (first_entry (case resp of None \<Rightarrow> None | Some r \<Rightarrow> predictions r))
              in case p of
                   Some uri \<Rightarrow> (Inr uri, calls @ calls')
                 | None \<Rightarrow> (Inl NoArtifact, calls @ calls')))"

subsection \<open>The polling loop of \<^verbatim>\<open>generateVeoVideo\<close>\<close>

definition maxAttempts :: nat where
  "maxAttempts = 60"

text \<open>
  \<open>attempts\<close> is the counter of the \<^verbatim>\<open>while\<close> loop; the result carries the calls made from
  this point on.
\<close>

function pollOperation :: "backend \<Rightarrow> string \<Rightarrow> nat \<Rightarrow> (error + string) \<times> call list" where
  "pollOperation env operationName attempts =
     (if attempts < maxAttempts
      then logged (PollCall operationName)
             (case poll env (attempts + 1) operationName of
                Rejected msg \<Rightarrow> (Inl (Failure msg), [])
              | NotOk st pollError \<Rightarrow>
                  (Inl (Failure (''Poll error: '' @ decimal st @ '' - '' @ pollError)), [])
              | Ok pollData \<Rightarrow>
                  if finished pollData
                  then (case poll_error pollData of
                          Some e \<Rightarrow> (Inl (ProviderOperationError (message e)), [])
                        | None \<Rightarrow> extractVideo env (response pollData))
                  else pollOperation env operationName (attempts + 1))
      else (Inl ProviderTimeout, []))"
  by pat_completeness auto
termination
  by (relation "measure (\<lambda>(env, operationName, attempts). maxAttempts - attempts)") auto

declare pollOperation.simps [simp del]

subsection \<open>\<^verbatim>\<open>generateVeoVideo\<close>\<close>

text \<open>A parameter with a default value takes the default when the argument is missing.\<close>

fun or_default :: "string option \<Rightarrow> string \<Rightarrow> string" where
  "or_default None d = d"
| "or_default (Some s) d = s"

definition authenticate :: "credential \<Rightarrow> error + string \<times> string" where
  "authenticate c =
     (case c of
        ServiceAccount token projectId \<Rightarrow>
          (case token of Inl msg \<Rightarrow> Inl (Failure msg) | Inr t \<Rightarrow> Inr (t, projectId))
      | AccessToken t projectId \<Rightarrow>
          if t = []
          then Inl (Failure ''Veo video generation requires service account or VEO_ACCESS_TOKEN'')
          else Inr (t, if truthy projectId then or_empty projectId
                       else ''gen-lang-client-0342836621'')
      | NoCredential \<Rightarrow>
          Inl (Failure ''Veo video generation requires service account or VEO_ACCESS_TOKEN''))"

fun member_string :: "backend \<Rightarrow> string member \<Rightarrow> string" where
  "member_string env (Own s) = s"
| "member_string env (Inherited k) = member_text env k"
| "member_string env Absent = ''undefined''"

definition requestBody ::
  "backend \<Rightarrow> string \<Rightarrow> string \<Rightarrow> string \<Rightarrow> string option \<Rightarrow> string \<Rightarrow> string \<Rightarrow> veo_request" where
  "requestBody env script dir img ctry style accent =
     \<lparr> promptText =
         ''The SAME character from the image speaks with a clear ''
         @ member_string env (voiceDescription accent)
         @ '' in ALL segments. They say: '' @ [CHR 0x22] @ script @ [CHR 0x22] @ ''. ''
         @ dir @ ''. '' @ member_string env (styleModifier style)
         @ ''. Setting: '' @ (if truthy ctry then or_empty ctry else ''United States'')
         @ ''. 8 seconds duration. Vertical 9:16 aspect ratio video.'',
       imageBytes = base64Data img,
       imageMime = mimeType img,
       aspectRatio = ''9:16'',
       resizeMode = ''crop'',
       sampleCount = 1,
       durationSeconds = 8,
       resolution = ''720p'',
       personGeneration = ''allow_adult'',
       seed = voiceSeed accent,
       negativePrompt = negativeVoice accent \<rparr>"

text \<open>
  The parameters \<^verbatim>\<open>styleParams\<close> and \<^verbatim>\<open>requestId\<close> are left out: the first is never
  read, the second only labels the log lines.
\<close>

definition generateVeoVideo ::
  "backend \<Rightarrow> string \<Rightarrow> string \<Rightarrow> string \<Rightarrow> string option \<Rightarrow> string option \<Rightarrow> string option
     \<Rightarrow> (error + string) \<times> call list" where
  "generateVeoVideo env script dir img ctry style accent =
     (case authenticate (credentials env) of
        Inl e \<Rightarrow> (Inl e, [])
      | Inr (accessToken, projectId) \<Rightarrow>
          if base64Data img = [] \<or> length (base64Data img) < 100
          then (Inl InvalidImage, [])
          else (let body = requestBody env script dir img ctry
                             (or_default style ''UGC Talking'') (or_default accent ''american'')
                in logged (SubmitCall body)
                     (case submit env accessToken projectId body of
                        Rejected msg \<Rightarrow> (Inl (Failure msg), [])
                      | NotOk st errorText \<Rightarrow>
                          (Inl (Failure (''Veo API error: '' @ decimal st @ '' - '' @ errorText)), [])
                      | Ok started \<Rightarrow>
                          (case op_error started of
                             Some e \<Rightarrow> (Inl (Failure (''Veo API error: '' @ template (message e))), [])
                           | None \<Rightarrow>
                               if truthy (name started)
                               then pollOperation env (or_empty (name started)) 0
                               else (Inl (Failure ''No operation name returned from Veo API''), [])))))"

subsection \<open>\<^verbatim>\<open>generateHedraVideo\<close> and \<^verbatim>\<open>generateKlingVideo\<close>\<close>

text \<open>\<^verbatim>\<open>error.message || response.status\<close> inside a template literal.\<close>

definition message_or_status :: "string option \<Rightarrow> nat \<Rightarrow> string" where
  "message_or_status msg st = (if truthy msg then or_empty msg else decimal st)"

definition generateTTS :: "string \<Rightarrow> string" where
  "generateTTS text = ''https://placeholder-audio-url.mp3''"

definition hedraMaxAttempts :: nat where
  "hedraMaxAttempts = 30"

text \<open>\<^verbatim>\<open>data.status === 'completed' && data.video_url\<close>\<close>

definition completed_url :: "hedra_status \<Rightarrow> string option" where
  "completed_url d =
     (if status d = Some ''completed'' \<and> truthy (video_url d) then video_url d else None)"

function pollHedraVideo :: "backend \<Rightarrow> string option \<Rightarrow> nat \<Rightarrow> error + string" where
  "pollHedraVideo env videoId i =
     (if i < hedraMaxAttempts
      then (case hedra_poll env i videoId of
              Rejected msg \<Rightarrow> Inl (Failure msg)
            | NotOk st u \<Rightarrow> Inl (Failure (''Poll error: '' @ decimal st))
            | Ok d \<Rightarrow>
                (case completed_url d of
                   Some url \<Rightarrow> Inr url
                 | None \<Rightarrow>
                     if status d = Some ''failed''
                     then Inl (Failure ''Hedra video generation failed'')
                     else pollHedraVideo env videoId (i + 1)))
      else Inl (Failure ''Hedra video generation timed out''))"
  by pat_completeness auto
termination
  by (relation "measure (\<lambda>(env, videoId, i). hedraMaxAttempts - i)") auto

declare pollHedraVideo.simps [simp del]

text \<open>The parameters \<^verbatim>\<open>country\<close> and \<^verbatim>\<open>voiceAccent\<close> only reach the log.\<close>

definition generateHedraVideo ::
  "backend \<Rightarrow> string \<Rightarrow> string \<Rightarrow> string \<Rightarrow> string \<Rightarrow> error + string" where
  "generateHedraVideo env script dir img mdl =
     (case hedra_character env (base64Data img) mdl of
        Rejected msg \<Rightarrow> Inl (Failure msg)
      | NotOk st msg \<Rightarrow> Inl (Failure (''Hedra init error: '' @ message_or_status msg st))
      | Ok characterId \<Rightarrow>
          (case hedra_video env characterId (generateTTS script) dir of
             Rejected msg \<Rightarrow> Inl (Failure msg)
           | NotOk st msg \<Rightarrow> Inl (Failure (''Hedra video error: '' @ message_or_status msg st))
           | Ok videoId \<Rightarrow> pollHedraVideo env videoId 0))"

definition generateKlingVideo :: "backend \<Rightarrow> error + string" where
  "generateKlingVideo env =
     (if truthy (kling_key env)
      then Inl (Failure ''Kling integration not yet implemented'')
      else Inl (Failure ''KLING_API_KEY not configured''))"

subsection \<open>The handler of \<^verbatim>\<open>POST /generate-video\<close>\<close>

text \<open>The body of the status 200 reply.\<close>

record video_reply =
  videoUrl :: string
  videoBase64 :: "string option"
  reply_provider :: string
  requestId :: string

datatype http_response =
    Json200 video_reply
  | Json400 string
  | Json500 string string

text \<open>The branch on \<^verbatim>\<open>provider\<close>: Hedra, Kling, and Veo for everything else.\<close>

definition dispatch :: "backend \<Rightarrow> generation_request \<Rightarrow> error + string" where
  "dispatch env g =
     (if req_provider g = Some ''hedra''
      then generateHedraVideo env (req_scriptText g) (req_direction g) (req_referenceImage g)
             (if truthy (req_model g) then or_empty (req_model g) else ''character-3'')
      else if req_provider g = Some ''kling''
      then generateKlingVideo env
      else fst (generateVeoVideo env (req_scriptText g) (req_direction g) (req_referenceImage g)
                  (req_country g) (req_videoStyle g) (req_voiceAccent g)))"

text \<open>
  \<^verbatim>\<open>videoResult.startsWith('data:') ? videoResult.split(',')[1] : null\<close>
\<close>

definition base64_part :: "string \<Rightarrow> string option" where
  "base64_part videoResult =
     (if prefix ''data:'' videoResult then at_js (split_js '','' videoResult) 1 else None)"

definition generate_video :: "backend \<Rightarrow> string \<Rightarrow> raw_request \<Rightarrow> http_response" where
  "generate_video env rid r =
     (case normalize_request r of
        Inl (MissingField m) \<Rightarrow> Json400 m
      | Inl (Failure m) \<Rightarrow> Json500 m rid
      | Inr g \<Rightarrow>
          (case dispatch env g of
             Inl (MissingField m) \<Rightarrow> Json400 m
           | Inl (Failure m) \<Rightarrow> Json500 m rid
           | Inr videoResult \<Rightarrow>
               Json200 \<lparr> videoUrl = videoResult,
                         videoBase64 = base64_part videoResult,
                         reply_provider =
                           (if truthy (req_provider g) then or_empty (req_provider g) else ''veo''),
                         requestId = rid \<rparr>))"

subsection \<open>Vocabulary of the properties\<close>

text \<open>
  \<open>starts_within sep a rest\<close>: in the string \<open>a @ rest\<close>, an occurrence of \<open>sep\<close> starts at
  one of the positions of \<open>a\<close>.
\<close>

definition starts_within :: "string \<Rightarrow> string \<Rightarrow> string \<Rightarrow> bool" where
  "starts_within sep a rest \<longleftrightarrow> (\<exists>i < length a. prefix sep (drop i (a @ rest)))"

text \<open>A request in the legacy convention: only \<^verbatim>\<open>prompt\<close> and \<^verbatim>\<open>imageUrl\<close> are sent.\<close>

definition legacy_request :: "string \<Rightarrow> string \<Rightarrow> raw_request" where
  "legacy_request p img =
     \<lparr> scriptText = None, direction = None, referenceImage = None, prompt = Some p,
       imageUrl = Some img, country = None, provider = None, videoStyle = None,
       voiceAccent = None, model = None \<rparr>"

text \<open>A request in the canonical convention, with the three fields of the end-to-end scenario.\<close>

definition canonical_request :: "string \<Rightarrow> string \<Rightarrow> string \<Rightarrow> raw_request" where
  "canonical_request script img prov =
     \<lparr> scriptText = Some script, direction = None, referenceImage = Some img, prompt = None,
       imageUrl = None, country = None, provider = Some prov, videoStyle = None,
       voiceAccent = None, model = None \<rparr>"

text \<open>A PNG data URI with the given base64 payload, and a payload of 100 characters.\<close>

definition png_image :: "string \<Rightarrow> string" where
  "png_image payload = ''data:image/png;base64,'' @ payload"

definition padding :: string where
  "padding = replicate 100 (CHR ''A'')"

subsection \<open>The ordered search of the specification\<close>

text \<open>
  The first entries of \<^verbatim>\<open>response.videos\<close> and \<^verbatim>\<open>response.predictions\<close>.
\<close>

definition first_video :: "veo_result option \<Rightarrow> media option" where
  "first_video resp = first_entry (case resp of None \<Rightarrow> None | Some r \<Rightarrow> videos r)"

definition first_prediction :: "veo_result option \<Rightarrow> media option" where
  "first_prediction resp = first_entry (case resp of None \<Rightarrow> None | Some r \<Rightarrow> predictions r)"

text \<open>
  The two ways to a payload: a storage reference that is fetched, where a failed fetch
  gives nothing, and inline base64 text.
\<close>

definition fetched :: "backend \<Rightarrow> string option \<Rightarrow> string option" where
  "fetched env uri =
     (case uri of
        None \<Rightarrow> None
      | Some u \<Rightarrow>
          if u = [] then None
          else (case fetchBlob env u of
                  Ok bytes \<Rightarrow> Some (data_uri (toBase64 bytes))
                | NotOk st x \<Rightarrow> None
                | Rejected msg \<Rightarrow> None))"

definition inline :: "string option \<Rightarrow> string option" where
  "inline b = (case b of None \<Rightarrow> None | Some s \<Rightarrow> if s = [] then None else Some (data_uri s))"

text \<open>The four rules of the specification's list, each on its own.\<close>

definition rule1 :: "backend \<Rightarrow> veo_result option \<Rightarrow> string option" where
  "rule1 env resp = (case first_video resp of None \<Rightarrow> None | Some m \<Rightarrow> fetched env (gcsUri m))"

definition rule2 :: "veo_result option \<Rightarrow> string option" where
  "rule2 resp = (case first_video resp of None \<Rightarrow> None | Some m \<Rightarrow> inline (bytesBase64Encoded m))"

definition rule3 :: "veo_result option \<Rightarrow> string option" where
  "rule3 resp =
     (case first_prediction resp of None \<Rightarrow> None | Some m \<Rightarrow> inline (bytesBase64Encoded m))"

definition rule4 :: "backend \<Rightarrow> veo_result option \<Rightarrow> string option" where
  "rule4 env resp =
     (case first_prediction resp of None \<Rightarrow> None | Some m \<Rightarrow> fetched env (gcsUri m))"

text \<open>First match wins; no match is \<open>NoArtifact\<close>.\<close>

fun first_match :: "string option list \<Rightarrow> error + string" where
  "first_match [] = Inl NoArtifact"
| "first_match (None # rules) = first_match rules"
| "first_match (Some v # rules) = Inr v"

definition ordered_search :: "backend \<Rightarrow> veo_result option \<Rightarrow> error + string" where
  "ordered_search env resp =
     first_match [rule1 env resp, rule2 resp, rule3 resp, rule4 env resp]"

text \<open>
  The fetches of the search: the one of rule 1 whenever its storage reference is there,
  the one of rule 4 only when rules 1 to 3 gave nothing.
\<close>

definition search_calls :: "backend \<Rightarrow> veo_result option \<Rightarrow> call list" where
  "search_calls env resp =
     (case first_video resp of
        None \<Rightarrow> []
      | Some m \<Rightarrow> if truthy (gcsUri m) then [FetchCall (or_empty (gcsUri m))] else [])
     @ (if rule1 env resp = None \<and> rule2 resp = None \<and> rule3 resp = None
        then (case first_prediction resp of
                None \<Rightarrow> []
              | Some m \<Rightarrow> if truthy (gcsUri m) then [FetchCall (or_empty (gcsUri m))] else [])
        else [])"

text \<open>The shape a rule looks for is there: the entry exists and the field is a non-empty string.\<close>

definition has_shape :: "media option \<Rightarrow> (media \<Rightarrow> string option) \<Rightarrow> bool" where
  "has_shape entry field = (case entry of None \<Rightarrow> False | Some m \<Rightarrow> truthy (field m))"

text \<open>Responses with a single inline payload, under \<^verbatim>\<open>videos\<close> and under \<^verbatim>\<open>predictions\<close>.\<close>

definition inline_video :: "string \<Rightarrow> veo_result" where
  "inline_video payload =
     \<lparr> videos = Some [\<lparr> gcsUri = None, bytesBase64Encoded = Some payload \<rparr>],
       predictions = None \<rparr>"

definition inline_prediction :: "string \<Rightarrow> veo_result" where
  "inline_prediction payload =
     \<lparr> videos = None,
       predictions = Some [\<lparr> gcsUri = None, bytesBase64Encoded = Some payload \<rparr>] \<rparr>"

subsection \<open>Poll replies and backends of the scenarios\<close>

text \<open>A poll reply that is fine and reports the operation as not done.\<close>

definition still_running :: "(string, poll_data) reply \<Rightarrow> bool" where
  "still_running r = (case r of Ok d \<Rightarrow> \<not> finished d | NotOk st x \<Rightarrow> False | Rejected msg \<Rightarrow> False)"

text \<open>The reply \<^verbatim>\<open>done: true\<close> with one inline video, and the reply of a running operation.\<close>

definition done_inline :: "string \<Rightarrow> (string, poll_data) reply" where
  "done_inline payload =
     Ok \<lparr> finished = True, poll_error = None, response = Some (inline_video payload) \<rparr>"

definition pending :: "(string, poll_data) reply" where
  "pending = Ok \<lparr> finished = False, poll_error = None, response = None \<rparr>"

text \<open>
  \<open>submission\<close> is the part of \<^verbatim>\<open>generateVeoVideo\<close> before the polling loop: the
  submitted body and the operation name when the loop is reached, nothing when the
  function has thrown before.
\<close>

definition submission ::
  "backend \<Rightarrow> string \<Rightarrow> string \<Rightarrow> string \<Rightarrow> string option \<Rightarrow> string option \<Rightarrow> string option
     \<Rightarrow> (veo_request \<times> string) option" where
  "submission env script dir img ctry style accent =
     (case authenticate (credentials env) of
        Inl e \<Rightarrow> None
      | Inr (accessToken, projectId) \<Rightarrow>
          if length (base64Data img) < 100 then None
          else (let body = requestBody env script dir img ctry
                             (or_default style ''UGC Talking'') (or_default accent ''american'')
                in case submit env accessToken projectId body of
                     Ok started \<Rightarrow>
                       if op_error started = None \<and> truthy (name started)
                       then Some (body, or_empty (name started))
                       else None
                   | NotOk st errorText \<Rightarrow> None
                   | Rejected msg \<Rightarrow> None))"

text \<open>
  A backend with a manual access token whose Veo operation is done at the first poll,
  with the inline video \<^verbatim>\<open>Zm9v\<close>, and whose Hedra job is completed at the first poll.
\<close>

definition mock_backend :: backend where
  "mock_backend =
     \<lparr> credentials = AccessToken ''token'' None,
       submit = (\<lambda>token project body. Ok \<lparr> name = Some ''operations/1'', op_error = None \<rparr>),
       poll = (\<lambda>n operationName.
                 Ok \<lparr> finished = True, poll_error = None,
                      response = Some (inline_video ''Zm9v'') \<rparr>),
       fetchBlob = (\<lambda>uri. NotOk 404 ()),
       member_text = (\<lambda>k. ''[object Object]''),
       hedra_character = (\<lambda>img mdl. Ok (Some ''character-1'')),
       hedra_video = (\<lambda>characterId audioUrl motion. Ok (Some ''video-1'')),
       hedra_poll = (\<lambda>i videoId.
                       Ok \<lparr> status = Some ''completed'',
                            video_url = Some ''https://cdn.hedra.com/video-1.mp4'' \<rparr>),
       kling_key = None \<rparr>"

text \<open>The same backend with an operation that never finishes.\<close>

definition pending_backend :: backend where
  "pending_backend = mock_backend \<lparr> poll := (\<lambda>i operationName. pending) \<rparr>"

text \<open>The same backend with an operation that fails at the 60th poll.\<close>

definition failing_backend :: backend where
  "failing_backend =
     mock_backend
       \<lparr> poll := (\<lambda>i operationName.
                    if i < 60 then pending
                    else Ok \<lparr> finished = True,
                              poll_error = Some \<lparr> message = Some ''quota exceeded'' \<rparr>,
                              response = None \<rparr>) \<rparr>"

text \<open>Text over the base64 alphabet and the padding character.\<close>

definition is_base64 :: "string \<Rightarrow> bool" where
  "is_base64 s \<longleftrightarrow> (\<forall>c \<in> set s. c \<in> set base64_alphabet \<or> c = CHR ''='')"

section \<open>Properties\<close>

subsection \<open>Splitting at a separator\<close>

lemma starts_within_Nil: "\<not> starts_within sep [] rest"
  by (simp add: starts_within_def)

lemma starts_within_Cons:
  "starts_within sep (x # a) rest \<longleftrightarrow> prefix sep (x # a @ rest) \<or> starts_within sep a rest"
proof -
  have "(\<exists>i < Suc (length a). prefix sep (drop i (x # a @ rest)))
        \<longleftrightarrow> prefix sep (x # a @ rest) \<or> (\<exists>i < length a. prefix sep (drop i (a @ rest)))"
    by (simp add: Ex_less_Suc2)
  then show ?thesis by (simp add: starts_within_def)
qed

lemma split_at_not_Nil: "split_at sep s \<noteq> []"
  by (induction sep s rule: split_at.induct) (auto split: list.splits)

lemma split_at_same: "sep \<noteq> [] \<Longrightarrow> split_at sep (sep @ r) = [] # split_at sep r"
  by (cases sep) auto

lemma split_at_first:
  "sep \<noteq> [] \<Longrightarrow> \<not> starts_within sep a (sep @ r) \<Longrightarrow> split_at sep (a @ sep @ r) = a # split_at sep r"
proof (induction a)
  case Nil
  then show ?case by (simp add: split_at_same)
next
  case (Cons x a)
  then show ?case by (simp add: starts_within_Cons)
qed

lemma split_at_absent:
  "\<not> starts_within sep s [] \<Longrightarrow> split_at sep s = [s]"
  by (induction s) (auto simp: starts_within_Cons)

lemma split_at_head:
  "\<not> starts_within sep u t \<Longrightarrow> \<exists>t' ps. split_at sep (u @ t) = (u @ t') # ps"
proof (induction u)
  case Nil
  then show ?case using split_at_not_Nil [of sep t] by (cases "split_at sep t") auto
next
  case (Cons x u)
  then show ?case by (auto simp: starts_within_Cons)
qed

lemma starts_within_sublist:
  "sep \<noteq> [] \<Longrightarrow> starts_within sep s [] \<longleftrightarrow> sublist sep s"
proof
  assume "starts_within sep s []"
  then obtain i where "i < length s" "prefix sep (drop i s)" by (auto simp: starts_within_def)
  then obtain zs where "drop i s = sep @ zs" by (auto simp: prefix_def)
  then have "s = take i s @ sep @ zs" by (metis append_take_drop_id)
  then show "sublist sep s" by (auto simp: sublist_def)
next
  assume ne: "sep \<noteq> []" and "sublist sep s"
  then obtain ps ss where s: "s = ps @ sep @ ss" by (auto simp: sublist_def)
  with ne have "length ps < length s" by (cases sep) auto
  moreover from s have "prefix sep (drop (length ps) s)" by simp
  ultimately show "starts_within sep s []" by (auto simp: starts_within_def)
qed

lemma starts_within_rest:
  "starts_within sep a (sep @ r) \<longleftrightarrow> starts_within sep a (sep @ r')"
proof -
  have "prefix sep (drop i (a @ sep @ r)) \<longleftrightarrow> prefix sep (drop i a @ sep)" if "i < length a" for i r
  proof -
    from that have "length sep < length (drop i a @ sep)" by simp
    then have "sep \<noteq> (drop i a @ sep) @ us" for us
      by (metis length_append not_add_less1)
    then have "prefix sep ((drop i a @ sep) @ r) \<longleftrightarrow> prefix sep (drop i a @ sep)"
      unfolding prefix_append [of sep "drop i a @ sep" r] by simp
    with that show ?thesis by simp
  qed
  then show ?thesis unfolding starts_within_def by blast
qed

lemma marker_not_Nil: "script_marker \<noteq> []" "style_marker \<noteq> []"
  by (simp_all add: script_marker_def style_marker_def)

lemma script_between:
  assumes "p = a @ script_marker @ s @ style_marker @ t"
    and "\<not> starts_within script_marker a (script_marker @ s @ style_marker @ t)"
    and "\<not> starts_within style_marker s (style_marker @ t)"
    and "\<not> starts_within script_marker (s @ style_marker) t"
  shows "script_of_prompt (Some p) = Some s"
proof -
  have 1: "split_at script_marker p = a # split_at script_marker ((s @ style_marker) @ t)"
    using assms(1,2) by (simp add: split_at_first marker_not_Nil)
  obtain t' ps where 2: "split_at script_marker ((s @ style_marker) @ t) = ((s @ style_marker) @ t') # ps"
    using split_at_head [OF assms(4)] by blast
  have "\<not> starts_within style_marker s (style_marker @ t')"
    using assms(3) starts_within_rest [of style_marker s t t'] by simp
  then have 3: "split_at style_marker (s @ style_marker @ t') = s # split_at style_marker t'"
    by (simp add: split_at_first marker_not_Nil)
  have "p \<noteq> []" using assms(1) marker_not_Nil by simp
  then show ?thesis
    using 1 2 3 by (simp add: script_of_prompt_def at_js_def split_js_def marker_not_Nil)
qed

lemma script_after:
  assumes "p = a @ script_marker @ s"
    and "\<not> starts_within script_marker a (script_marker @ s)"
    and "\<not> sublist script_marker s" and "\<not> sublist style_marker s"
  shows "script_of_prompt (Some p) = Some s"
proof -
  have 1: "split_at script_marker p = a # split_at script_marker s"
    using assms(1,2) by (simp add: split_at_first marker_not_Nil)
  have 2: "split_at script_marker s = [s]"
    using assms(3) by (simp add: split_at_absent starts_within_sublist marker_not_Nil)
  have 3: "split_at style_marker s = [s]"
    using assms(4) by (simp add: split_at_absent starts_within_sublist marker_not_Nil)
  have "p \<noteq> []" using assms(1) marker_not_Nil by simp
  then show ?thesis
    using 1 2 3 by (simp add: script_of_prompt_def at_js_def split_js_def marker_not_Nil)
qed

lemma script_unmarked:
  assumes "\<not> sublist script_marker p"
  shows "script_of_prompt (Some p) = None"
proof -
  have "split_at script_marker p = [p]"
    using assms by (simp add: split_at_absent starts_within_sublist marker_not_Nil)
  then show ?thesis
    by (simp add: script_of_prompt_def at_js_def split_js_def marker_not_Nil)
qed

lemma starts_within_eval:
  "starts_within sep [] rest = False"
  "starts_within sep (x # a) rest = (prefix sep (x # a @ rest) \<or> starts_within sep a rest)"
  by (simp_all add: starts_within_Nil starts_within_Cons)

subsection \<open>Normalisation of legacy requests\<close>

text \<open>
  Claim C1, as amended. For a request with no \<^verbatim>\<open>scriptText\<close> and the prompt \<open>p\<close>:
  if \<open>p\<close> is \<open>a\<close>, the script marker, a non-empty \<open>s\<close>, the style marker and \<open>t\<close>, where
  this script marker is the first one of \<open>p\<close>, no style marker starts inside \<open>s\<close> and no
  further script marker starts before the end of the style marker, the script text is
  \<open>s\<close>; if \<open>p\<close> is \<open>a\<close>, its first script marker and a non-empty \<open>s\<close> holding neither
  marker, the script text is \<open>s\<close> again; if \<open>p\<close> holds no script marker, the script
  text is \<open>p\<close>.
\<close>

theorem legacy_script_text:
  assumes "scriptText r = None" and "prompt r = Some p"
  shows "(p = a @ script_marker @ s @ style_marker @ t \<and> s \<noteq> []
            \<and> \<not> starts_within script_marker a (script_marker @ s @ style_marker @ t)
            \<and> \<not> starts_within style_marker s (style_marker @ t)
            \<and> \<not> starts_within script_marker (s @ style_marker) t
          \<longrightarrow> finalScriptText r = s)
       \<and> (p = a @ script_marker @ s \<and> s \<noteq> []
            \<and> \<not> starts_within script_marker a (script_marker @ s)
            \<and> \<not> sublist script_marker s \<and> \<not> sublist style_marker s
          \<longrightarrow> finalScriptText r = s)
       \<and> (\<not> sublist script_marker p \<longrightarrow> finalScriptText r = p)"
proof (intro conjI impI)
  assume "p = a @ script_marker @ s @ style_marker @ t \<and> s \<noteq> []
            \<and> \<not> starts_within script_marker a (script_marker @ s @ style_marker @ t)
            \<and> \<not> starts_within style_marker s (style_marker @ t)
            \<and> \<not> starts_within script_marker (s @ style_marker) t"
  then have "script_of_prompt (Some p) = Some s" and "s \<noteq> []"
    using script_between [of p a s t] by simp_all
  then show "finalScriptText r = s"
    using assms by (simp add: finalScriptText_def or_js_def)
next
  assume "p = a @ script_marker @ s \<and> s \<noteq> []
            \<and> \<not> starts_within script_marker a (script_marker @ s)
            \<and> \<not> sublist script_marker s \<and> \<not> sublist style_marker s"
  then have "script_of_prompt (Some p) = Some s" and "s \<noteq> []"
    using script_after [of p a s] by simp_all
  then show "finalScriptText r = s"
    using assms by (simp add: finalScriptText_def or_js_def)
next
  assume "\<not> sublist script_marker p"
  then have "script_of_prompt (Some p) = None" by (rule script_unmarked)
  then show "finalScriptText r = p"
    using assms by (simp add: finalScriptText_def or_js_def)
qed

theorem legacy_script_text_witness:
  "finalScriptText (legacy_request (''Direction text'' @ script_marker @ ''Hello world'' @ style_marker @ '' UGC Talking.'') ''img'') = ''Hello world''
   \<and> finalScriptText (legacy_request (''A'' @ script_marker @ ''B'') ''img'') = ''B''
   \<and> finalScriptText (legacy_request ''Hello'' ''img'') = ''Hello''"
proof (intro conjI)
  let ?p = "''Direction text'' @ script_marker @ ''Hello world'' @ style_marker @ '' UGC Talking.''"
  have "\<not> starts_within script_marker ''Direction text'' (script_marker @ ''Hello world'' @ style_marker @ '' UGC Talking.'')"
    by (simp add: starts_within_eval script_marker_def style_marker_def)
  moreover have "\<not> starts_within style_marker ''Hello world'' (style_marker @ '' UGC Talking.'')"
    by (simp add: starts_within_eval script_marker_def style_marker_def)
  moreover have "\<not> starts_within script_marker (''Hello world'' @ style_marker) '' UGC Talking.''"
    by (simp add: starts_within_eval script_marker_def style_marker_def)
  ultimately show "finalScriptText (legacy_request ?p ''img'') = ''Hello world''"
    using legacy_script_text [of "legacy_request ?p ''img''" ?p "''Direction text''" "''Hello world''" "'' UGC Talking.''"]
    by (simp add: legacy_request_def)
next
  have "\<not> starts_within script_marker ''A'' (script_marker @ ''B'')"
    by (simp add: starts_within_eval script_marker_def)
  moreover have "\<not> sublist script_marker ''B''" "\<not> sublist style_marker ''B''"
    by (simp_all add: sublist_Cons_right script_marker_def style_marker_def)
  ultimately show "finalScriptText (legacy_request (''A'' @ script_marker @ ''B'') ''img'') = ''B''"
    using legacy_script_text [of "legacy_request (''A'' @ script_marker @ ''B'') ''img''" "''A'' @ script_marker @ ''B''" "''A''" "''B''"]
    by (simp add: legacy_request_def)
next
  have "\<not> sublist script_marker ''Hello''"
    by (simp add: sublist_Cons_right script_marker_def)
  then show "finalScriptText (legacy_request ''Hello'' ''img'') = ''Hello''"
    using legacy_script_text [of "legacy_request ''Hello'' ''img''" "''Hello''"]
    by (simp add: legacy_request_def)
qed

text \<open>
  The prompt \<^verbatim>\<open>A. Script: "B\<close> holds no style marker, and its script text is \<^verbatim>\<open>B\<close>,
  not the prompt.
\<close>

theorem legacy_script_text_counterexample:
  "scriptText (legacy_request (''A'' @ script_marker @ ''B'') ''img'') = None
   \<and> \<not> sublist style_marker (''A'' @ script_marker @ ''B'')
   \<and> finalScriptText (legacy_request (''A'' @ script_marker @ ''B'') ''img'') = ''B''
   \<and> ''B'' \<noteq> ''A'' @ script_marker @ ''B''"
  by (simp add: legacy_request_def sublist_Cons_right script_marker_def style_marker_def
      finalScriptText_def script_of_prompt_def or_js_def at_js_def split_js_def)

lemma direction_before:
  assumes "p = a @ script_marker @ q"
    and "\<not> starts_within script_marker a (script_marker @ q)"
  shows "direction_of_prompt (Some p) = Some a"
proof -
  have "split_at script_marker p = a # split_at script_marker q"
    using assms by (simp add: split_at_first marker_not_Nil)
  moreover have "p \<noteq> []" using assms(1) marker_not_Nil by simp
  ultimately show ?thesis
    by (simp add: direction_of_prompt_def at_js_def split_js_def marker_not_Nil)
qed

lemma direction_unmarked:
  assumes "\<not> sublist script_marker p" and "p \<noteq> []"
  shows "direction_of_prompt (Some p) = Some p"
proof -
  have "split_at script_marker p = [p]"
    using assms by (simp add: split_at_absent starts_within_sublist marker_not_Nil)
  then show ?thesis using assms(2)
    by (simp add: direction_of_prompt_def at_js_def split_js_def marker_not_Nil)
qed

text \<open>
  Claim C2, as amended. For a request with no \<^verbatim>\<open>direction\<close> and the prompt \<open>p\<close>: if \<open>p\<close>
  is \<open>a\<close>, its first script marker and \<open>q\<close>, the direction is \<open>a\<close>; if \<open>p\<close> holds no
  script marker, the direction is \<open>p\<close> itself.
\<close>

theorem legacy_direction:
  assumes "direction r = None" and "prompt r = Some p"
  shows "(p = a @ script_marker @ q \<and> \<not> starts_within script_marker a (script_marker @ q)
          \<longrightarrow> finalDirection r = a)
       \<and> (\<not> sublist script_marker p \<longrightarrow> finalDirection r = p)"
proof (intro conjI impI)
  assume "p = a @ script_marker @ q \<and> \<not> starts_within script_marker a (script_marker @ q)"
  then have "direction_of_prompt (Some p) = Some a"
    using direction_before [of p a q] by simp
  then show "finalDirection r = a"
    using assms by (simp add: finalDirection_def or_js_def)
next
  assume *: "\<not> sublist script_marker p"
  show "finalDirection r = p"
  proof (cases "p = []")
    case True
    then show ?thesis using assms by (simp add: finalDirection_def or_js_def direction_of_prompt_def)
  next
    case False
    with * have "direction_of_prompt (Some p) = Some p" by (rule direction_unmarked)
    then show ?thesis using assms by (simp add: finalDirection_def or_js_def)
  qed
qed

theorem legacy_direction_witness:
  "finalDirection (legacy_request (''Direction text'' @ script_marker @ ''Hello world'' @ style_marker @ '' UGC Talking.'') ''img'') = ''Direction text''
   \<and> finalDirection (legacy_request ''Hello'' ''img'') = ''Hello''"
proof (intro conjI)
  let ?q = "''Hello world'' @ style_marker @ '' UGC Talking.''"
  let ?p = "''Direction text'' @ script_marker @ ?q"
  have "\<not> starts_within script_marker ''Direction text'' (script_marker @ ?q)"
    by (simp add: starts_within_eval script_marker_def style_marker_def)
  then show "finalDirection (legacy_request ?p ''img'') = ''Direction text''"
    using legacy_direction [of "legacy_request ?p ''img''" ?p "''Direction text''" ?q]
    by (simp add: legacy_request_def)
next
  have "\<not> sublist script_marker ''Hello''"
    by (simp add: sublist_Cons_right script_marker_def)
  then show "finalDirection (legacy_request ''Hello'' ''img'') = ''Hello''"
    using legacy_direction [of "legacy_request ''Hello'' ''img''" "''Hello''"]
    by (simp add: legacy_request_def)
qed

text \<open>The prompt \<^verbatim>\<open>Hello\<close> holds no marker, and its direction is \<^verbatim>\<open>Hello\<close>, not empty.\<close>

theorem legacy_direction_counterexample:
  "direction (legacy_request ''Hello'' ''img'') = None
   \<and> scriptText (legacy_request ''Hello'' ''img'') = None
   \<and> \<not> sublist script_marker ''Hello'' \<and> \<not> sublist style_marker ''Hello''
   \<and> finalDirection (legacy_request ''Hello'' ''img'') = ''Hello''"
  by (simp add: legacy_request_def sublist_Cons_right script_marker_def style_marker_def
      finalDirection_def direction_of_prompt_def or_js_def at_js_def split_js_def)

subsection \<open>Validation\<close>

lemma script_of_prompt_falsy: "\<not> truthy p \<Longrightarrow> script_of_prompt p = None"
  by (cases p) (auto simp: script_of_prompt_def)

lemma finalScriptText_empty:
  "finalScriptText r = [] \<longleftrightarrow> \<not> truthy (scriptText r) \<and> \<not> truthy (prompt r)"
proof (cases "truthy (scriptText r)")
  case True
  then show ?thesis by (cases "scriptText r") (auto simp: finalScriptText_def or_js_def)
next
  case False
  show ?thesis
  proof (cases "truthy (script_of_prompt (prompt r))")
    case True
    then have "truthy (prompt r)" using script_of_prompt_falsy by fastforce
    with True False show ?thesis
      by (cases "script_of_prompt (prompt r)") (auto simp: finalScriptText_def or_js_def)
  next
    case F2: False
    with False show ?thesis
      by (cases "prompt r") (auto simp: finalScriptText_def or_js_def)
  qed
qed

lemma finalReferenceImage_falsy:
  "\<not> truthy (finalReferenceImage r) \<longleftrightarrow> \<not> truthy (referenceImage r) \<and> \<not> truthy (imageUrl r)"
  by (simp add: finalReferenceImage_def or_js_def)

lemma normalize_cases:
  "normalize_request r =
     (if finalScriptText r = [] then Inl (MissingField ''Missing required fields: scriptText or prompt'')
      else if \<not> truthy (finalReferenceImage r)
      then Inl (MissingField ''Missing required fields: referenceImage or imageUrl'')
      else Inr \<lparr> req_scriptText = finalScriptText r, req_direction = finalDirection r,
                 req_referenceImage = or_empty (finalReferenceImage r),
                 req_country = country r, req_provider = provider r,
                 req_videoStyle = videoStyle r, req_voiceAccent = voiceAccent r,
                 req_model = model r \<rparr>)"
  by (simp add: normalize_request_def split: option.splits)

text \<open>
  Claim C3. Normalisation answers \<open>MissingField\<close> when \<^verbatim>\<open>scriptText\<close> and \<^verbatim>\<open>prompt\<close>
  are both missing (or empty), and, when one of them is there, answers \<open>MissingField\<close>
  when \<^verbatim>\<open>referenceImage\<close> and \<^verbatim>\<open>imageUrl\<close> are both missing (or empty); with one of
  each pair present it succeeds, whatever the other fields are.
\<close>

theorem normalize_missing_field:
  "(\<not> truthy (scriptText r) \<and> \<not> truthy (prompt r)
      \<longrightarrow> normalize_request r = Inl (MissingField ''Missing required fields: scriptText or prompt''))
   \<and> ((truthy (scriptText r) \<or> truthy (prompt r))
        \<and> \<not> truthy (referenceImage r) \<and> \<not> truthy (imageUrl r)
      \<longrightarrow> normalize_request r = Inl (MissingField ''Missing required fields: referenceImage or imageUrl''))
   \<and> ((truthy (scriptText r) \<or> truthy (prompt r))
        \<and> (truthy (referenceImage r) \<or> truthy (imageUrl r))
      \<longrightarrow> (\<exists>g. normalize_request r = Inr g))"
  using finalScriptText_empty [of r] finalReferenceImage_falsy [of r]
  by (auto simp: normalize_cases)

theorem normalize_missing_field_witness:
  "normalize_request (legacy_request [] ''img'')
     = Inl (MissingField ''Missing required fields: scriptText or prompt'')
   \<and> normalize_request (legacy_request ''Hello'' [])
     = Inl (MissingField ''Missing required fields: referenceImage or imageUrl'')
   \<and> (\<exists>g. normalize_request (legacy_request ''Hello'' ''img'') = Inr g)"
  using normalize_missing_field [of "legacy_request [] ''img''"]
    normalize_missing_field [of "legacy_request ''Hello'' []"]
    normalize_missing_field [of "legacy_request ''Hello'' ''img''"]
  by (simp add: legacy_request_def)

subsection \<open>The accent tables\<close>

lemma lookup_absent:
  "key \<notin> set (map fst table) \<Longrightarrow> key \<notin> set object_prototype_names \<Longrightarrow> lookup table key = Absent"
  by (simp add: lookup_def map_of_eq_None_iff [THEN iffD2])

lemma negativeVoiceMap_keys:
  "map fst negativeVoiceMap = [''south-african'', ''american'', ''british'', ''australian'', ''indian'']"
  by (simp add: negativeVoiceMap_def)

lemma seedMap_keys:
  "map fst seedMap =
     [''american'', ''british'', ''australian'', ''indian'', ''south-african'',
      ''american-female'', ''british-female'', ''australian-female'', ''indian-female'',
      ''south-african-female'']"
  by (simp add: seedMap_def)

lemma negativeVoice_female:
  "negativeVoice (''south-african'' @ ''-female'') = negativeVoice ''south-african''"
  "negativeVoice (''american'' @ ''-female'') = negativeVoice ''american''"
  "negativeVoice (''british'' @ ''-female'') = negativeVoice ''british''"
  "negativeVoice (''australian'' @ ''-female'') = negativeVoice ''australian''"
  "negativeVoice (''indian'' @ ''-female'') = negativeVoice ''indian''"
  by (simp_all add: negativeVoice_def)

lemma negativeVoice_primary:
  "negativeVoice ''south-african'' \<noteq> Own []"
  "negativeVoice ''american'' \<noteq> Own []"
  "negativeVoice ''british'' \<noteq> Own []"
  "negativeVoice ''australian'' \<noteq> Own []"
  "negativeVoice ''indian'' \<noteq> Own []"
  by (simp_all add: negativeVoice_def lookup_or_def lookup_def negativeVoiceMap_def)

text \<open>
  Claim C7, as amended. The accent \<^verbatim>\<open>south-african\<close> has the seed 56789 and a negative
  prompt naming the American, British, Australian and Indian accents; \<^verbatim>\<open>unknown-value\<close>
  has the default seed 12345 and an empty negative prompt, as has every accent that is in
  neither table (with \<^verbatim>\<open>-female\<close> removed for the negative prompt) and is not the name
  of a member of \<^verbatim>\<open>Object.prototype\<close>. A female variant of one of the five primary
  accents has the negative prompt of that accent, which is not empty.
\<close>

theorem accent_lookup:
  "voiceSeed ''south-african'' = Own 56789
   \<and> negativeVoice ''south-african''
       = Own ''American accent, British accent, Australian accent, Indian accent''
   \<and> voiceSeed ''unknown-value'' = Own 12345
   \<and> negativeVoice ''unknown-value'' = Own []
   \<and> (accent \<notin> set (map fst seedMap) \<and> accent \<notin> set object_prototype_names
        \<longrightarrow> voiceSeed accent = Own 12345)
   \<and> (replace_first ''-female'' [] accent \<notin> set (map fst negativeVoiceMap)
        \<and> replace_first ''-female'' [] accent \<notin> set object_prototype_names
        \<longrightarrow> negativeVoice accent = Own [])
   \<and> (base \<in> set (map fst negativeVoiceMap)
        \<longrightarrow> negativeVoice (base @ ''-female'') = negativeVoice base
            \<and> negativeVoice base \<noteq> Own [])"
proof (intro conjI impI)
  show "voiceSeed ''south-african'' = Own 56789"
    by (simp add: voiceSeed_def lookup_def seedMap_def)
  show "negativeVoice ''south-african''
       = Own ''American accent, British accent, Australian accent, Indian accent''"
    by (simp add: negativeVoice_def lookup_or_def lookup_def negativeVoiceMap_def)
  show "voiceSeed ''unknown-value'' = Own 12345"
    by (simp add: voiceSeed_def lookup_def seedMap_def object_prototype_names_def)
  show "negativeVoice ''unknown-value'' = Own []"
    by (simp add: negativeVoice_def lookup_or_def lookup_def negativeVoiceMap_def
        object_prototype_names_def)
next
  assume "accent \<notin> set (map fst seedMap) \<and> accent \<notin> set object_prototype_names"
  then show "voiceSeed accent = Own 12345"
    by (simp add: voiceSeed_def lookup_absent)
next
  assume "replace_first ''-female'' [] accent \<notin> set (map fst negativeVoiceMap)
        \<and> replace_first ''-female'' [] accent \<notin> set object_prototype_names"
  then show "negativeVoice accent = Own []"
    by (simp add: negativeVoice_def lookup_or_def lookup_absent)
next
  assume "base \<in> set (map fst negativeVoiceMap)"
  then have "base = ''south-african'' \<or> base = ''american'' \<or> base = ''british''
    \<or> base = ''australian'' \<or> base = ''indian''"
    unfolding negativeVoiceMap_keys by simp
  then show "negativeVoice (base @ ''-female'') = negativeVoice base"
    using negativeVoice_female by blast
next
  assume "base \<in> set (map fst negativeVoiceMap)"
  then have "base = ''south-african'' \<or> base = ''american'' \<or> base = ''british''
    \<or> base = ''australian'' \<or> base = ''indian''"
    unfolding negativeVoiceMap_keys by simp
  then show "negativeVoice base \<noteq> Own []"
    using negativeVoice_primary by blast
qed

theorem accent_lookup_witness:
  "voiceSeed ''scottish-female'' = Own 12345 \<and> negativeVoice ''scottish-female'' = Own []
   \<and> negativeVoice ''indian-female'' = negativeVoice ''indian''
   \<and> negativeVoice ''indian'' \<noteq> Own []"
proof -
  have "''scottish-female'' \<notin> set (map fst seedMap)
      \<and> ''scottish-female'' \<notin> set object_prototype_names"
    by (simp add: seedMap_keys object_prototype_names_def)
  moreover have "replace_first ''-female'' [] ''scottish-female'' \<notin> set (map fst negativeVoiceMap)
        \<and> replace_first ''-female'' [] ''scottish-female'' \<notin> set object_prototype_names"
    by (simp add: negativeVoiceMap_keys object_prototype_names_def)
  moreover have "''indian'' \<in> set (map fst negativeVoiceMap)"
    by (simp add: negativeVoiceMap_keys)
  ultimately show ?thesis
    using accent_lookup [of "''scottish-female''" "''indian''"] by simp
qed

text \<open>The negative prompt of \<^verbatim>\<open>british-female\<close> is not empty.\<close>

theorem accent_lookup_counterexample:
  "negativeVoice ''british-female''
     = Own ''American accent, Australian accent, Indian accent, South African accent''
   \<and> negativeVoice ''british-female'' \<noteq> Own []"
  by (simp add: negativeVoice_def lookup_or_def lookup_def negativeVoiceMap_def)

subsection \<open>Artifact extraction\<close>

lemma fetch_video_fetched: "truthy (Some u) \<Longrightarrow> fst (fetch_video env u) = fetched env (Some u)"
  by (simp add: fetch_video_def fetched_def split: reply.splits)

lemma from_videos_rules:
  "fst (from_videos env (first_video resp)) = (case rule1 env resp of Some v \<Rightarrow> Some v | None \<Rightarrow> rule2 resp)"
  by (cases "first_video resp")
     (auto simp: from_videos_def rule1_def rule2_def fetched_def inline_def fetch_video_def
           split: option.splits reply.splits prod.splits if_splits)

lemma from_predictions_rules:
  "fst (from_predictions env (first_prediction resp)) = (case rule3 resp of Some v \<Rightarrow> Some v | None \<Rightarrow> rule4 env resp)"
  by (cases "first_prediction resp")
     (auto simp: from_predictions_def rule3_def rule4_def fetched_def inline_def fetch_video_def
           split: option.splits reply.splits prod.splits if_splits)

lemma extractVideo_ordered: "fst (extractVideo env resp) = ordered_search env resp"
proof -
  have "fst (extractVideo env resp) =
     (case fst (from_videos env (first_video resp)) of Some v \<Rightarrow> Inr v
      | None \<Rightarrow> (case fst (from_predictions env (first_prediction resp)) of Some v \<Rightarrow> Inr v | None \<Rightarrow> Inl NoArtifact))"
    by (simp add: extractVideo_def first_video_def first_prediction_def split_beta split: option.splits)
  then show ?thesis
    by (simp add: from_videos_rules from_predictions_rules ordered_search_def split: option.splits)
qed

lemma from_videos_calls:
  "snd (from_videos env (first_video resp)) =
     (case first_video resp of
        None \<Rightarrow> []
      | Some m \<Rightarrow> if truthy (gcsUri m) then [FetchCall (or_empty (gcsUri m))] else [])"
  by (cases "first_video resp")
     (auto simp: from_videos_def fetch_video_def split_beta split: option.splits reply.splits)

lemma from_predictions_calls:
  "snd (from_predictions env (first_prediction resp)) =
     (case first_prediction resp of
        None \<Rightarrow> []
      | Some m \<Rightarrow> if rule3 resp = None \<and> truthy (gcsUri m)
                  then [FetchCall (or_empty (gcsUri m))] else [])"
  by (cases "first_prediction resp")
     (auto simp: from_predictions_def fetch_video_def rule3_def inline_def
           split: option.splits reply.splits)

lemma extractVideo_calls: "snd (extractVideo env resp) = search_calls env resp"
proof -
  have "snd (extractVideo env resp) =
     (case fst (from_videos env (first_video resp)) of
        Some v \<Rightarrow> snd (from_videos env (first_video resp))
      | None \<Rightarrow> snd (from_videos env (first_video resp))
                 @ snd (from_predictions env (first_prediction resp)))"
    by (simp add: extractVideo_def first_video_def first_prediction_def split_beta
             split: option.splits)
  then show ?thesis
    unfolding from_videos_rules from_videos_calls from_predictions_calls search_calls_def
    by (cases "rule1 env resp"; cases "rule2 resp"; cases "rule3 resp";
        cases "first_prediction resp") simp_all
qed

text \<open>
  Claim C4. The extraction of \<^verbatim>\<open>generateVeoVideo\<close> is the ordered search: the storage
  reference of the first video, fetched, and on a failed fetch the next rule; the inline
  bytes of the first video; the inline bytes of the first prediction; the storage reference
  of the first prediction, fetched; the first rule that gives a payload wins, and the
  fetch of rule 4 is made only when rules 1 to 3 gave nothing. A response whose only shape
  is the inline bytes of the first prediction yields that payload, and a response with
  none of the four shapes fails with \<open>NoArtifact\<close>, both without any fetch; a first video
  whose storage reference cannot be fetched yields its inline bytes.
\<close>

theorem artifact_extraction:
  "extractVideo env resp = (ordered_search env resp, search_calls env resp)
   \<and> (first_video resp = Some v \<and> gcsUri v = Some uri \<and> uri \<noteq> []
        \<and> (\<forall>bytes. fetchBlob env uri \<noteq> Ok bytes)
        \<and> bytesBase64Encoded v = Some payload \<and> payload \<noteq> []
      \<longrightarrow> extractVideo env resp = (Inr (data_uri payload), [FetchCall uri]))
   \<and> (\<not> has_shape (first_video resp) gcsUri
        \<and> \<not> has_shape (first_video resp) bytesBase64Encoded
        \<and> first_prediction resp = Some m \<and> bytesBase64Encoded m = Some payload
        \<and> payload \<noteq> []
      \<longrightarrow> extractVideo env resp = (Inr (data_uri payload), []))
   \<and> (\<not> has_shape (first_video resp) gcsUri
        \<and> \<not> has_shape (first_video resp) bytesBase64Encoded
        \<and> \<not> has_shape (first_prediction resp) bytesBase64Encoded
        \<and> \<not> has_shape (first_prediction resp) gcsUri
      \<longrightarrow> extractVideo env resp = (Inl NoArtifact, []))"
proof (intro conjI impI)
  show eq: "extractVideo env resp = (ordered_search env resp, search_calls env resp)"
    using extractVideo_ordered [of env resp] extractVideo_calls [of env resp]
    by (simp add: prod_eq_iff)
  {
    assume "first_video resp = Some v \<and> gcsUri v = Some uri \<and> uri \<noteq> []
        \<and> (\<forall>bytes. fetchBlob env uri \<noteq> Ok bytes)
        \<and> bytesBase64Encoded v = Some payload \<and> payload \<noteq> []"
    then show "extractVideo env resp = (Inr (data_uri payload), [FetchCall uri])"
      unfolding eq
      by (cases "fetchBlob env uri")
         (simp_all add: ordered_search_def search_calls_def rule1_def rule2_def
            fetched_def inline_def)
  }
  {
    assume "\<not> has_shape (first_video resp) gcsUri
        \<and> \<not> has_shape (first_video resp) bytesBase64Encoded
        \<and> first_prediction resp = Some m \<and> bytesBase64Encoded m = Some payload
        \<and> payload \<noteq> []"
    then show "extractVideo env resp = (Inr (data_uri payload), [])"
      unfolding eq
      by (auto simp: ordered_search_def search_calls_def rule1_def rule2_def rule3_def
            fetched_def inline_def has_shape_def split: option.splits)
  }
  {
    assume "\<not> has_shape (first_video resp) gcsUri
        \<and> \<not> has_shape (first_video resp) bytesBase64Encoded
        \<and> \<not> has_shape (first_prediction resp) bytesBase64Encoded
        \<and> \<not> has_shape (first_prediction resp) gcsUri"
    then show "extractVideo env resp = (Inl NoArtifact, [])"
      unfolding eq
      by (auto simp: ordered_search_def search_calls_def rule1_def rule2_def rule3_def rule4_def
            fetched_def inline_def has_shape_def split: option.splits)
  }
qed

theorem artifact_extraction_witness:
  "extractVideo mock_backend
     (Some \<lparr> videos = Some [\<lparr> gcsUri = Some ''gs://bucket/video.mp4'',
                              bytesBase64Encoded = Some ''Zm9v'' \<rparr>],
             predictions = None \<rparr>)
     = (Inr (data_uri ''Zm9v''), [FetchCall ''gs://bucket/video.mp4''])
   \<and> extractVideo mock_backend (Some (inline_prediction ''Zm9v'')) = (Inr (data_uri ''Zm9v''), [])
   \<and> extractVideo mock_backend (Some \<lparr> videos = Some [], predictions = None \<rparr>)
       = (Inl NoArtifact, [])"
proof -
  let ?v = "\<lparr> gcsUri = Some ''gs://bucket/video.mp4'', bytesBase64Encoded = Some ''Zm9v'' \<rparr>"
  let ?both = "Some \<lparr> videos = Some [?v], predictions = None \<rparr>"
  let ?only3 = "Some (inline_prediction ''Zm9v'')"
  let ?m = "\<lparr> gcsUri = None, bytesBase64Encoded = Some ''Zm9v'' \<rparr>"
  let ?none = "Some \<lparr> videos = Some [], predictions = None \<rparr>"
  have 0: "first_video ?both = Some ?v \<and> gcsUri ?v = Some ''gs://bucket/video.mp4''
        \<and> ''gs://bucket/video.mp4'' \<noteq> []
        \<and> (\<forall>bytes. fetchBlob mock_backend ''gs://bucket/video.mp4'' \<noteq> Ok bytes)
        \<and> bytesBase64Encoded ?v = Some ''Zm9v'' \<and> ''Zm9v'' \<noteq> []"
    by (simp add: first_video_def mock_backend_def)
  have 1: "\<not> has_shape (first_video ?only3) gcsUri
        \<and> \<not> has_shape (first_video ?only3) bytesBase64Encoded
        \<and> first_prediction ?only3 = Some ?m \<and> bytesBase64Encoded ?m = Some ''Zm9v''
        \<and> ''Zm9v'' \<noteq> []"
    by (simp add: has_shape_def first_video_def first_prediction_def inline_prediction_def)
  have 2: "\<not> has_shape (first_video ?none) gcsUri
        \<and> \<not> has_shape (first_video ?none) bytesBase64Encoded
        \<and> \<not> has_shape (first_prediction ?none) bytesBase64Encoded
        \<and> \<not> has_shape (first_prediction ?none) gcsUri"
    by (simp add: has_shape_def first_video_def first_prediction_def)
  show ?thesis
    using artifact_extraction [of mock_backend ?both ?v "''gs://bucket/video.mp4''" "''Zm9v''"] 0
      artifact_extraction [of mock_backend ?only3 _ _ "''Zm9v''" ?m] 1
      artifact_extraction [of mock_backend ?none] 2
    by blast
qed

subsection \<open>The polling loop\<close>

lemma still_running_Ok: "still_running r \<Longrightarrow> \<exists>d. r = Ok d \<and> \<not> finished d"
  by (cases r) (auto simp: still_running_def)

lemma pollOperation_running:
  assumes "attempts < maxAttempts" and "still_running (poll env (attempts + 1) operationName)"
  shows "pollOperation env operationName attempts
           = logged (PollCall operationName) (pollOperation env operationName (attempts + 1))"
proof -
  obtain d where "poll env (attempts + 1) operationName = Ok d" "\<not> finished d"
    using still_running_Ok [OF assms(2)] by blast
  with assms(1) show ?thesis
    by (subst pollOperation.simps) simp
qed

lemma pollOperation_exhausted:
  assumes "\<forall>i. k < i \<and> i \<le> maxAttempts \<longrightarrow> still_running (poll env i operationName)"
    and "k \<le> maxAttempts"
  shows "pollOperation env operationName k
           = (Inl ProviderTimeout, replicate (maxAttempts - k) (PollCall operationName))"
  using assms
proof (induction "maxAttempts - k" arbitrary: k)
  case 0
  then have "\<not> k < maxAttempts" by simp
  with 0 show ?case by (subst pollOperation.simps) simp
next
  case (Suc n)
  then have lt: "k < maxAttempts" by simp
  with Suc.prems have run: "still_running (poll env (k + 1) operationName)" by simp
  have "pollOperation env operationName (k + 1)
          = (Inl ProviderTimeout, replicate (maxAttempts - (k + 1)) (PollCall operationName))"
    using Suc.hyps(1) [of "k + 1"] Suc.hyps(2) Suc.prems lt by simp
  moreover have "maxAttempts - k = Suc (maxAttempts - (k + 1))" using lt by simp
  ultimately show ?case
    using pollOperation_running [OF lt run] by simp
qed

lemma pollOperation_failed:
  assumes "\<forall>i. k < i \<and> i < m \<longrightarrow> still_running (poll env i operationName)"
    and "poll env m operationName = Ok d" and "finished d" and "poll_error d = Some e"
    and "k < m" and "m \<le> maxAttempts"
  shows "pollOperation env operationName k
           = (Inl (ProviderOperationError (message e)), replicate (m - k) (PollCall operationName))"
  using assms(1,5)
proof (induction "m - k" arbitrary: k)
  case 0
  then show ?case by simp
next
  case (Suc n)
  then have lt: "k < maxAttempts" using assms(6) by simp
  show ?case
  proof (cases "k + 1 = m")
    case True
    with lt assms(2,3,4) show ?thesis
      by (subst pollOperation.simps) auto
  next
    case False
    with Suc.prems have lt': "k + 1 < m" by simp
    with Suc.prems have run: "still_running (poll env (k + 1) operationName)" by simp
    have "pollOperation env operationName (k + 1)
          = (Inl (ProviderOperationError (message e)), replicate (m - (k + 1)) (PollCall operationName))"
      using Suc.hyps(1) [of "k + 1"] Suc.hyps(2) Suc.prems lt' by simp
    moreover have "m - k = Suc (m - (k + 1))" using lt' by simp
    ultimately show ?thesis
      using pollOperation_running [OF lt run] by simp
  qed
qed

lemma generateVeoVideo_submitted:
  assumes "submission env script dir img ctry style accent = Some (body, n)"
  shows "generateVeoVideo env script dir img ctry style accent
           = logged (SubmitCall body) (pollOperation env n 0)"
proof -
  define b where "b = requestBody env script dir img ctry
                        (or_default style ''UGC Talking'') (or_default accent ''american'')"
  obtain tok proj where a: "authenticate (credentials env) = Inr (tok, proj)"
    using assms by (cases "authenticate (credentials env)") (auto simp: submission_def)
  have len: "\<not> length (base64Data img) < 100"
    using assms a by (auto simp: submission_def split: if_splits)
  then have ne: "base64Data img \<noteq> []" by auto
  have sub: "(case submit env tok proj b of
                Ok started \<Rightarrow>
                  if op_error started = None \<and> truthy (name started)
                  then Some (b, or_empty (name started)) else None
              | NotOk st errorText \<Rightarrow> None
              | Rejected msg \<Rightarrow> None) = Some (body, n)"
    using assms a len unfolding b_def by (simp add: submission_def Let_def)
  then obtain started where s: "submit env tok proj b = Ok started"
    by (cases "submit env tok proj b") auto
  with sub have t: "op_error started = None" "truthy (name started)" "body = b"
    "n = or_empty (name started)"
    by (auto split: if_splits)
  show ?thesis
    using a len ne s t unfolding b_def by (simp add: generateVeoVideo_def Let_def)
qed

lemma base64Data_png: "base64Data (png_image payload) = payload"
  by (simp add: png_image_def base64Data_def image_header_def word_char_def)

lemma submission_accepted:
  assumes "credentials env = AccessToken ''token'' None"
    and "submit env = (\<lambda>token project body. Ok \<lparr> name = Some ''operations/1'', op_error = None \<rparr>)"
  shows "submission env script dir (png_image padding) ctry style accent
           = Some (requestBody env script dir (png_image padding) ctry
                     (or_default style ''UGC Talking'') (or_default accent ''american''),
                   ''operations/1'')"
  using assms
  by (simp add: submission_def authenticate_def base64Data_png padding_def Let_def)

text \<open>
  Claim C5. When the first 60 polls all report a running operation, the loop ends with
  \<open>ProviderTimeout\<close> after exactly 60 poll calls, and so does \<^verbatim>\<open>generateVeoVideo\<close> once
  its submission was accepted: one submit call, 60 poll calls, no 61st.
\<close>

theorem poll_timeout:
  assumes "\<forall>i. 1 \<le> i \<and> i \<le> 60 \<longrightarrow> still_running (poll env i operationName)"
  shows "pollOperation env operationName 0
           = (Inl ProviderTimeout, replicate 60 (PollCall operationName))
       \<and> (submission env script dir img ctry style accent = Some (body, operationName)
            \<longrightarrow> generateVeoVideo env script dir img ctry style accent
                  = (Inl ProviderTimeout, SubmitCall body # replicate 60 (PollCall operationName)))"
proof -
  have "pollOperation env operationName 0
           = (Inl ProviderTimeout, replicate 60 (PollCall operationName))"
    using assms pollOperation_exhausted [of 0 env operationName]
    by (simp add: maxAttempts_def)
  then show ?thesis
    by (simp add: generateVeoVideo_submitted)
qed

theorem poll_timeout_witness:
  "pollOperation pending_backend ''operations/1'' 0
     = (Inl ProviderTimeout, replicate 60 (PollCall ''operations/1''))
   \<and> generateVeoVideo pending_backend ''Hi'' [] (png_image padding) None None None
     = (Inl ProviderTimeout,
        SubmitCall (requestBody pending_backend ''Hi'' [] (png_image padding) None
                      ''UGC Talking'' ''american'')
        # replicate 60 (PollCall ''operations/1''))"
proof -
  have 1: "\<forall>i. 1 \<le> i \<and> i \<le> 60 \<longrightarrow> still_running (poll pending_backend i ''operations/1'')"
    by (simp add: pending_backend_def pending_def still_running_def)
  have 2: "submission pending_backend ''Hi'' [] (png_image padding) None None None
             = Some (requestBody pending_backend ''Hi'' [] (png_image padding) None
                      ''UGC Talking'' ''american'', ''operations/1'')"
    using submission_accepted [of pending_backend "''Hi''" "[]" None None None]
    by (simp add: pending_backend_def mock_backend_def)
  show ?thesis
    using poll_timeout [OF 1, of "''Hi''" "[]" "png_image padding" None None None
        "requestBody pending_backend ''Hi'' [] (png_image padding) None
                      ''UGC Talking'' ''american''"] 2
    by blast
qed

text \<open>
  Claim C6. When 59 polls report a running operation and the 60th reports it done with
  an error, the loop ends with \<open>ProviderOperationError\<close>, whose message carries the remote
  error message, and not with \<open>ProviderTimeout\<close>.
\<close>

theorem poll_operation_error:
  assumes "\<forall>i. 1 \<le> i \<and> i \<le> 59 \<longrightarrow> still_running (poll env i operationName)"
    and "poll env 60 operationName = Ok d" and "finished d" and "poll_error d = Some e"
  shows "pollOperation env operationName 0
           = (Inl (ProviderOperationError (message e)), replicate 60 (PollCall operationName))
       \<and> ProviderOperationError (message e)
           = Failure (''Veo generation failed: '' @ template (message e))
       \<and> ProviderOperationError (message e) \<noteq> ProviderTimeout
       \<and> (submission env script dir img ctry style accent = Some (body, operationName)
            \<longrightarrow> generateVeoVideo env script dir img ctry style accent
                  = (Inl (ProviderOperationError (message e)),
                     SubmitCall body # replicate 60 (PollCall operationName)))"
proof -
  have "\<forall>i. 0 < i \<and> i < 60 \<longrightarrow> still_running (poll env i operationName)"
    using assms(1) by simp
  then have "pollOperation env operationName 0
           = (Inl (ProviderOperationError (message e)), replicate 60 (PollCall operationName))"
    using pollOperation_failed [of 0 60 env operationName d e] assms(2,3,4)
    by (simp add: maxAttempts_def)
  moreover have "ProviderOperationError (message e) \<noteq> ProviderTimeout"
    by (simp add: ProviderTimeout_def ProviderOperationError_def)
  ultimately show ?thesis
    by (simp add: generateVeoVideo_submitted ProviderOperationError_def)
qed

theorem poll_operation_error_witness:
  "pollOperation failing_backend ''operations/1'' 0
     = (Inl (Failure ''Veo generation failed: quota exceeded''),
        replicate 60 (PollCall ''operations/1''))
   \<and> generateVeoVideo failing_backend ''Hi'' [] (png_image padding) None None None
     = (Inl (Failure ''Veo generation failed: quota exceeded''),
        SubmitCall (requestBody failing_backend ''Hi'' [] (png_image padding) None
                      ''UGC Talking'' ''american'')
        # replicate 60 (PollCall ''operations/1''))"
proof -
  let ?d = "\<lparr> finished = True, poll_error = Some \<lparr> message = Some ''quota exceeded'' \<rparr>,
              response = None \<rparr>"
  have 1: "\<forall>i. 1 \<le> i \<and> i \<le> 59 \<longrightarrow> still_running (poll failing_backend i ''operations/1'')"
    by (simp add: failing_backend_def pending_def still_running_def)
  have 2: "poll failing_backend 60 ''operations/1'' = Ok ?d"
    by (simp add: failing_backend_def)
  have 3: "finished ?d" "poll_error ?d = Some \<lparr> message = Some ''quota exceeded'' \<rparr>"
    by simp_all
  have 4: "submission failing_backend ''Hi'' [] (png_image padding) None None None
             = Some (requestBody failing_backend ''Hi'' [] (png_image padding) None
                      ''UGC Talking'' ''american'', ''operations/1'')"
    using submission_accepted [of failing_backend "''Hi''" "[]" None None None]
    by (simp add: failing_backend_def mock_backend_def)
  have 5: "ProviderOperationError (Some ''quota exceeded'')
             = Failure ''Veo generation failed: quota exceeded''"
    by (simp add: ProviderOperationError_def)
  show ?thesis
    using poll_operation_error [OF 1 2 3, of "''Hi''" "[]" "png_image padding" None None None
        "requestBody failing_backend ''Hi'' [] (png_image padding) None
                      ''UGC Talking'' ''american''"] 4 5
    by simp
qed

subsection \<open>The reference image guard\<close>

lemma normalize_canonical:
  "script \<noteq> [] \<Longrightarrow> img \<noteq> [] \<Longrightarrow>
   normalize_request (canonical_request script img prov)
     = Inr \<lparr> req_scriptText = script, req_direction = [], req_referenceImage = img,
             req_country = None, req_provider = Some prov, req_videoStyle = None,
             req_voiceAccent = None, req_model = None \<rparr>"
  by (simp add: normalize_request_def canonical_request_def finalScriptText_def finalDirection_def
      finalReferenceImage_def or_js_def direction_of_prompt_def)

lemma generate_video_veo:
  assumes "normalize_request r = Inr g" and "req_provider g \<noteq> Some ''hedra''"
    and "req_provider g \<noteq> Some ''kling''"
  shows "generate_video env rid r =
           (case fst (generateVeoVideo env (req_scriptText g) (req_direction g)
                        (req_referenceImage g) (req_country g) (req_videoStyle g)
                        (req_voiceAccent g)) of
              Inl (MissingField m) \<Rightarrow> Json400 m
            | Inl (Failure m) \<Rightarrow> Json500 m rid
            | Inr videoResult \<Rightarrow>
                Json200 \<lparr> videoUrl = videoResult, videoBase64 = base64_part videoResult,
                          reply_provider =
                            (if truthy (req_provider g) then or_empty (req_provider g)
                             else ''veo''),
                          requestId = rid \<rparr>)"
  using assms by (simp add: generate_video_def dispatch_def)

lemma short_image_rejected:
  assumes "authenticate (credentials env) = Inr cred" and "length (base64Data img) < 100"
  shows "generateVeoVideo env script dir img ctry style accent = (Inl InvalidImage, [])"
  using assms by (cases cred) (simp add: generateVeoVideo_def)

lemma mock_authenticate: "authenticate (credentials mock_backend) = Inr (''token'', ''gen-lang-client-0342836621'')"
  by (simp add: mock_backend_def authenticate_def)

text \<open>
  Claim C10, as amended. When the base64 payload of the reference image has fewer than
  100 characters, \<^verbatim>\<open>generateVeoVideo\<close> fails without any remote call, so before the
  submit call; when a bearer token was obtained the error is \<open>InvalidImage\<close>, and a
  request that normalisation accepted is then answered with status 500 and that message.
\<close>

theorem invalid_reference_image:
  assumes "length (base64Data img) < 100"
  shows "(\<exists>e. generateVeoVideo env script dir img ctry style accent = (Inl e, []))
       \<and> (authenticate (credentials env) = Inr cred
            \<longrightarrow> generateVeoVideo env script dir img ctry style accent = (Inl InvalidImage, []))
       \<and> (authenticate (credentials env) = Inr cred \<and> normalize_request r = Inr g
            \<and> req_referenceImage g = img
            \<and> req_provider g \<noteq> Some ''hedra'' \<and> req_provider g \<noteq> Some ''kling''
            \<longrightarrow> generate_video env rid r = Json500 ''Invalid reference image data'' rid)"
proof (intro conjI impI)
  show "\<exists>e. generateVeoVideo env script dir img ctry style accent = (Inl e, [])"
  proof (cases "authenticate (credentials env)")
    case (Inl e)
    then show ?thesis by (simp add: generateVeoVideo_def)
  next
    case (Inr c)
    then show ?thesis using short_image_rejected [OF Inr assms] by blast
  qed
next
  assume "authenticate (credentials env) = Inr cred"
  then show "generateVeoVideo env script dir img ctry style accent = (Inl InvalidImage, [])"
    using assms by (rule short_image_rejected)
next
  assume *: "authenticate (credentials env) = Inr cred \<and> normalize_request r = Inr g
            \<and> req_referenceImage g = img
            \<and> req_provider g \<noteq> Some ''hedra'' \<and> req_provider g \<noteq> Some ''kling''"
  then have "generateVeoVideo env (req_scriptText g) (req_direction g) (req_referenceImage g)
               (req_country g) (req_videoStyle g) (req_voiceAccent g) = (Inl InvalidImage, [])"
    using assms short_image_rejected [of env cred img] by simp
  with * show "generate_video env rid r = Json500 ''Invalid reference image data'' rid"
    by (simp add: generate_video_veo InvalidImage_def)
qed

theorem invalid_reference_image_witness:
  "generateVeoVideo mock_backend ''Hi'' [] (png_image ''AAAA'') None None None
     = (Inl InvalidImage, [])
   \<and> generate_video mock_backend ''vid_2'' (canonical_request ''Hi'' (png_image ''AAAA'') ''veo'')
     = Json500 ''Invalid reference image data'' ''vid_2''"
proof -
  let ?g = "\<lparr> req_scriptText = ''Hi'', req_direction = [],
              req_referenceImage = png_image ''AAAA'',
              req_country = None, req_provider = Some ''veo'', req_videoStyle = None,
              req_voiceAccent = None, req_model = None \<rparr>"
  have 1: "length (base64Data (png_image ''AAAA'')) < 100"
    by (simp add: base64Data_png)
  have "png_image ''AAAA'' \<noteq> []" by (simp add: png_image_def)
  then have 2: "normalize_request (canonical_request ''Hi'' (png_image ''AAAA'') ''veo'') = Inr ?g"
    by (simp add: normalize_canonical)
  have 3: "req_referenceImage ?g = png_image ''AAAA''
           \<and> req_provider ?g \<noteq> Some ''hedra'' \<and> req_provider ?g \<noteq> Some ''kling''"
    by simp
  show ?thesis
    using invalid_reference_image [OF 1, of mock_backend "''Hi''" "[]" None None None
        "(''token'', ''gen-lang-client-0342836621'')"
        "canonical_request ''Hi'' (png_image ''AAAA'') ''veo''" ?g "''vid_2''"]
      mock_authenticate 2 3
    by blast
qed

text \<open>
  The token is looked for before the image is checked: with no service account and no
  \<^verbatim>\<open>VEO_ACCESS_TOKEN\<close>, the request with the four-character payload \<^verbatim>\<open>AAAA\<close> fails
  with the message about the missing credential, not with \<open>InvalidImage\<close>.
\<close>

theorem invalid_reference_image_counterexample:
  "length (base64Data (png_image ''AAAA'')) < 100
   \<and> generateVeoVideo (mock_backend \<lparr> credentials := NoCredential \<rparr>)
         ''Hi'' [] (png_image ''AAAA'') None None None
       = (Inl (Failure ''Veo video generation requires service account or VEO_ACCESS_TOKEN''), [])
   \<and> Failure ''Veo video generation requires service account or VEO_ACCESS_TOKEN''
       \<noteq> InvalidImage
   \<and> generate_video (mock_backend \<lparr> credentials := NoCredential \<rparr>) ''vid_1''
         (canonical_request ''Hi'' (png_image ''AAAA'') ''veo'')
       = Json500 ''Veo video generation requires service account or VEO_ACCESS_TOKEN'' ''vid_1''"
proof -
  let ?env = "mock_backend \<lparr> credentials := NoCredential \<rparr>"
  have 1: "length (base64Data (png_image ''AAAA'')) < 100"
    by (simp add: base64Data_png)
  have 2: "generateVeoVideo ?env ''Hi'' [] (png_image ''AAAA'') None None None
       = (Inl (Failure ''Veo video generation requires service account or VEO_ACCESS_TOKEN''), [])"
    by (simp add: generateVeoVideo_def authenticate_def)
  have 3: "Failure ''Veo video generation requires service account or VEO_ACCESS_TOKEN''
       \<noteq> InvalidImage"
    by (simp add: InvalidImage_def)
  have "png_image ''AAAA'' \<noteq> []" by (simp add: png_image_def)
  with 2 have 4: "generate_video ?env ''vid_1''
         (canonical_request ''Hi'' (png_image ''AAAA'') ''veo'')
       = Json500 ''Veo video generation requires service account or VEO_ACCESS_TOKEN'' ''vid_1''"
    by (simp add: generate_video_def dispatch_def normalize_canonical)
  from 1 2 3 4 show ?thesis by blast
qed

subsection \<open>The end-to-end scenario\<close>

lemma pollOperation_first_done:
  assumes "poll env 1 n = Ok d" and "finished d" and "poll_error d = None"
  shows "pollOperation env n 0 = logged (PollCall n) (extractVideo env (response d))"
  using assms by (subst pollOperation.simps) (simp add: maxAttempts_def)

lemma extract_inline_video:
  "payload \<noteq> [] \<Longrightarrow> extractVideo env (Some (inline_video payload)) = (Inr (data_uri payload), [])"
  by (simp add: extractVideo_def from_videos_def inline_video_def)

lemma split_comma_head:
  "\<exists>ps. split_at '','' s = takeWhile (\<lambda>c. c \<noteq> CHR '','') s # ps"
proof (induction s)
  case Nil
  then show ?case by simp
next
  case (Cons c s)
  then show ?case by (cases "c = CHR '',''") auto
qed

lemma base64_part_data_uri:
  "base64_part (data_uri payload) = Some (takeWhile (\<lambda>c. c \<noteq> CHR '','') payload)"
proof -
  obtain ps where "split_at '','' payload = takeWhile (\<lambda>c. c \<noteq> CHR '','') payload # ps"
    using split_comma_head by blast
  then show ?thesis
    by (simp add: base64_part_def data_uri_def split_js_def at_js_def)
qed

lemma base64_part_plain:
  "CHR '','' \<notin> set payload \<Longrightarrow> base64_part (data_uri payload) = Some payload"
  by (auto simp: base64_part_data_uri takeWhile_eq_all_conv)

lemma mock_poll: "poll mock_backend 1 operationName = done_inline ''Zm9v''"
  by (simp add: mock_backend_def done_inline_def)

lemma mock_submission:
  "submission mock_backend ''Hi'' [] (png_image padding) None None None
     = Some (requestBody mock_backend ''Hi'' [] (png_image padding) None
               ''UGC Talking'' ''american'', ''operations/1'')"
  using submission_accepted [of mock_backend "''Hi''" "[]" None None None]
  by (simp add: mock_backend_def)


lemma veo_run_inline:
  assumes "script \<noteq> []"
    and "submission env script [] (png_image payload) None None None = Some (body, operationName)"
    and "poll env 1 operationName = done_inline video"
    and "video \<noteq> []" and "CHR '','' \<notin> set video"
  shows "generate_video env rid (canonical_request script (png_image payload) ''veo'')
           = Json200 \<lparr> videoUrl = data_uri video, videoBase64 = Some video,
                       reply_provider = ''veo'', requestId = rid \<rparr>"
proof -
  let ?d = "\<lparr> finished = True, poll_error = None, response = Some (inline_video video) \<rparr>"
  have "pollOperation env operationName 0
          = logged (PollCall operationName) (extractVideo env (response ?d))"
    using assms(3) by (intro pollOperation_first_done) (simp_all add: done_inline_def)
  then have "pollOperation env operationName 0
          = (Inr (data_uri video), [PollCall operationName])"
    using assms(4) by (simp add: extract_inline_video)
  then have run: "fst (generateVeoVideo env script [] (png_image payload) None None None)
          = Inr (data_uri video)"
    using generateVeoVideo_submitted [OF assms(2)] by simp
  have img: "png_image payload \<noteq> []" by (simp add: png_image_def)
  have norm: "normalize_request (canonical_request script (png_image payload) ''veo'')
     = Inr \<lparr> req_scriptText = script, req_direction = [],
             req_referenceImage = png_image payload,
             req_country = None, req_provider = Some ''veo'', req_videoStyle = None,
             req_voiceAccent = None, req_model = None \<rparr>"
    using assms(1) img by (simp add: normalize_canonical)
  have part: "base64_part (data_uri video) = Some video"
    using assms(5) by (rule base64_part_plain)
  show ?thesis
    unfolding generate_video_veo [OF norm, simplified]
    using run part by simp
qed

text \<open>
  Claim C8, as amended. The request with \<^verbatim>\<open>scriptText\<close> \<^verbatim>\<open>Hi\<close>, provider \<^verbatim>\<open>veo\<close> and a
  PNG reference image whose base64 payload has at least 100 characters, run against a
  backend that accepts the submission and answers the first poll with \<^verbatim>\<open>done: true\<close> and
  the inline video \<^verbatim>\<open>Zm9v\<close>, is answered with the artifact
  \<^verbatim>\<open>data:video/mp4;base64,Zm9v\<close>.
\<close>

theorem end_to_end_inline_video:
  assumes "100 \<le> length payload"
    and "submission env ''Hi'' [] (png_image payload) None None None = Some (body, operationName)"
    and "poll env 1 operationName = done_inline ''Zm9v''"
  shows "generate_video env rid (canonical_request ''Hi'' (png_image payload) ''veo'')
           = Json200 \<lparr> videoUrl = ''data:video/mp4;base64,Zm9v'', videoBase64 = Some ''Zm9v'',
                       reply_provider = ''veo'', requestId = rid \<rparr>"
  using veo_run_inline [OF _ assms(2,3), of rid] by (simp add: data_uri_def)

theorem end_to_end_inline_video_witness:
  "generate_video mock_backend ''vid_1'' (canonical_request ''Hi'' (png_image padding) ''veo'')
     = Json200 \<lparr> videoUrl = ''data:video/mp4;base64,Zm9v'', videoBase64 = Some ''Zm9v'',
                 reply_provider = ''veo'', requestId = ''vid_1'' \<rparr>"
proof -
  have "100 \<le> length padding" by (simp add: padding_def)
  then show ?thesis
    using end_to_end_inline_video [OF _ mock_submission mock_poll] by simp
qed

text \<open>
  With the reference image \<^verbatim>\<open>data:image/png;base64,AAAA\<close> of the scenario the payload
  has four characters, and the same backend is never asked: the reply is status 500.
\<close>

theorem end_to_end_inline_video_counterexample:
  "png_image ''AAAA'' = ''data:image/png;base64,AAAA''
   \<and> poll mock_backend 1 ''operations/1'' = done_inline ''Zm9v''
   \<and> generate_video mock_backend ''vid_1'' (canonical_request ''Hi'' (png_image ''AAAA'') ''veo'')
       = Json500 ''Invalid reference image data'' ''vid_1''"
proof -
  have "generateVeoVideo mock_backend ''Hi'' [] (png_image ''AAAA'') None None None
          = (Inl InvalidImage, [])"
    using mock_authenticate by (rule short_image_rejected) (simp add: base64Data_png)
  moreover have "png_image ''AAAA'' \<noteq> []" by (simp add: png_image_def)
  ultimately have "generate_video mock_backend ''vid_1''
                     (canonical_request ''Hi'' (png_image ''AAAA'') ''veo'')
                   = Json500 ''Invalid reference image data'' ''vid_1''"
    by (simp add: generate_video_def dispatch_def normalize_canonical InvalidImage_def)
  moreover have "png_image ''AAAA'' = ''data:image/png;base64,AAAA''"
    by (simp add: png_image_def)
  ultimately show ?thesis
    using mock_poll [of "''operations/1''"] by blast
qed

subsection \<open>The reply of a completed request\<close>

lemma fst_logged: "fst (logged c x) = fst x"
  by (cases x) simp

lemma fetched_data_uri: "fetched env uri = Some v \<Longrightarrow> \<exists>payload. v = data_uri payload"
  by (auto simp: fetched_def split: option.splits if_splits reply.splits)

lemma inline_data_uri: "inline b = Some v \<Longrightarrow> \<exists>payload. v = data_uri payload"
  by (auto simp: inline_def split: option.splits if_splits)

lemma first_match_member: "first_match rules = Inr v \<Longrightarrow> Some v \<in> set rules"
  by (induction rules rule: first_match.induct) auto

lemma extractVideo_data_uri:
  assumes "fst (extractVideo env resp) = Inr v"
  shows "\<exists>payload. v = data_uri payload"
proof -
  have "Some v \<in> {rule1 env resp, rule2 resp, rule3 resp, rule4 env resp}"
    using assms first_match_member [of "[rule1 env resp, rule2 resp, rule3 resp, rule4 env resp]" v]
    by (simp add: extractVideo_ordered ordered_search_def)
  then show ?thesis
    by (auto simp: rule1_def rule2_def rule3_def rule4_def split: option.splits
          dest: fetched_data_uri [OF sym] inline_data_uri [OF sym])
qed

lemma pollOperation_data_uri:
  "fst (pollOperation env operationName attempts) = Inr v \<Longrightarrow> \<exists>payload. v = data_uri payload"
proof (induction env operationName attempts rule: pollOperation.induct)
  case (1 env operationName attempts)
  show ?case
  proof (cases "attempts < maxAttempts")
    case False
    with "1.prems" show ?thesis
      by (subst (asm) pollOperation.simps) simp
  next
    case True
    show ?thesis
    proof (cases "poll env (attempts + 1) operationName")
      case (Rejected msg)
      with True "1.prems" show ?thesis
        by (subst (asm) pollOperation.simps) simp
    next
      case (NotOk st pollError)
      with True "1.prems" show ?thesis
        by (subst (asm) pollOperation.simps) simp
    next
      case (Ok pollData)
      show ?thesis
      proof (cases "finished pollData")
        case False
        with True Ok "1.prems"
        have "fst (pollOperation env operationName (attempts + 1)) = Inr v"
          by (subst (asm) pollOperation.simps) (simp add: fst_logged)
        then show ?thesis using "1.IH" [OF True Ok False] by simp
      next
        case fin: True
        with True Ok "1.prems"
        have "poll_error pollData = None \<and> fst (extractVideo env (response pollData)) = Inr v"
          by (subst (asm) pollOperation.simps)
             (cases "poll_error pollData"; simp add: fst_logged)
        then show ?thesis using extractVideo_data_uri by blast
      qed
    qed
  qed
qed

lemma generateVeoVideo_data_uri:
  assumes "fst (generateVeoVideo env script dir img ctry style accent) = Inr v"
  shows "\<exists>payload. v = data_uri payload"
proof (cases "submission env script dir img ctry style accent")
  case None
  then have "\<exists>e. fst (generateVeoVideo env script dir img ctry style accent) = Inl e"
    by (auto simp: submission_def generateVeoVideo_def Let_def fst_logged
          split: sum.splits if_splits reply.splits option.splits)
  with assms show ?thesis by simp
next
  case (Some a)
  then obtain body n where "submission env script dir img ctry style accent = Some (body, n)"
    by (cases a) simp
  then show ?thesis
    using assms pollOperation_data_uri [of env n 0 v]
    by (simp add: generateVeoVideo_submitted fst_logged)
qed

lemma comma_not_base64: "CHR '','' \<notin> set base64_alphabet"
  by (simp add: base64_alphabet_def)

lemma is_base64_no_comma: "is_base64 s \<Longrightarrow> CHR '','' \<notin> set s"
proof
  assume "is_base64 s" and "CHR '','' \<in> set s"
  then have "CHR '','' \<in> set base64_alphabet \<or> CHR '','' = CHR ''=''"
    unfolding is_base64_def by blast
  then show False using comma_not_base64 by simp
qed

lemma base64_digit_mem: "base64_digit n \<in> set base64_alphabet"
proof -
  have "length base64_alphabet = 64" by (simp add: base64_alphabet_def)
  then have "n mod 64 < length base64_alphabet" by simp
  then show ?thesis unfolding base64_digit_def by (rule nth_mem)
qed

lemma toBase64_is_base64: "is_base64 (toBase64 bytes)"
  by (induction bytes rule: toBase64.induct) (simp_all add: is_base64_def base64_digit_mem)

lemma hedra_run:
  "generate_video mock_backend ''vid_1'' (canonical_request ''Hi'' (png_image ''AAAA'') ''hedra'')
     = Json200 \<lparr> videoUrl = ''https://cdn.hedra.com/video-1.mp4'', videoBase64 = None,
                 reply_provider = ''hedra'', requestId = ''vid_1'' \<rparr>"
proof -
  have "pollHedraVideo mock_backend (Some ''video-1'') 0 = Inr ''https://cdn.hedra.com/video-1.mp4''"
    by (subst pollHedraVideo.simps)
       (simp add: hedraMaxAttempts_def mock_backend_def completed_url_def)
  then have "generateHedraVideo mock_backend ''Hi'' [] (png_image ''AAAA'') ''character-3''
          = Inr ''https://cdn.hedra.com/video-1.mp4''"
    by (simp add: generateHedraVideo_def mock_backend_def)
  moreover have "png_image ''AAAA'' \<noteq> []" by (simp add: png_image_def)
  ultimately show ?thesis
    by (simp add: generate_video_def dispatch_def normalize_canonical base64_part_def)
qed

text \<open>
  Claim C9, as amended. A status 200 reply of a request that went to Veo carries
  \<^verbatim>\<open>videoUrl\<close> as \<^verbatim>\<open>data:video/mp4;base64,\<close> followed by a payload, and \<^verbatim>\<open>videoBase64\<close>
  as that payload up to its first comma, which is the whole payload when it is base64
  text, as the text of every fetched buffer is.
\<close>

theorem veo_reply_payload:
  assumes "provider r \<noteq> Some ''hedra''" and "provider r \<noteq> Some ''kling''"
    and "generate_video env rid r = Json200 rep"
  shows "(\<exists>payload. videoUrl rep = ''data:video/mp4;base64,'' @ payload
            \<and> videoBase64 rep = Some (takeWhile (\<lambda>c. c \<noteq> CHR '','') payload)
            \<and> (is_base64 payload \<longrightarrow> videoBase64 rep = Some payload))
       \<and> is_base64 (toBase64 bytes)"
proof
  obtain g where g: "normalize_request r = Inr g"
    using assms(3) by (cases "normalize_request r") (auto simp: generate_video_def split: error.splits)
  then have p: "req_provider g = provider r"
    by (auto simp: normalize_cases split: if_splits)
  let ?run = "fst (generateVeoVideo env (req_scriptText g) (req_direction g)
                        (req_referenceImage g) (req_country g) (req_videoStyle g)
                        (req_voiceAccent g))"
  have "\<exists>v. ?run = Inr v \<and> videoUrl rep = v \<and> videoBase64 rep = base64_part v"
    using assms generate_video_veo [OF g, of env rid] p
    by (cases ?run) (auto split: error.splits)
  then obtain v where v: "?run = Inr v" "videoUrl rep = v" "videoBase64 rep = base64_part v"
    by blast
  then obtain payload where "v = data_uri payload"
    using generateVeoVideo_data_uri by blast
  with v have "videoUrl rep = ''data:video/mp4;base64,'' @ payload
           \<and> videoBase64 rep = Some (takeWhile (\<lambda>c. c \<noteq> CHR '','') payload)
           \<and> (is_base64 payload \<longrightarrow> videoBase64 rep = Some payload)"
    using is_base64_no_comma [of payload]
    by (auto simp: base64_part_data_uri base64_part_plain) (simp add: data_uri_def)
  then show "\<exists>payload. videoUrl rep = ''data:video/mp4;base64,'' @ payload
            \<and> videoBase64 rep = Some (takeWhile (\<lambda>c. c \<noteq> CHR '','') payload)
            \<and> (is_base64 payload \<longrightarrow> videoBase64 rep = Some payload)"
    by blast
  show "is_base64 (toBase64 bytes)" by (rule toBase64_is_base64)
qed

theorem veo_reply_payload_witness:
  "generate_video mock_backend ''vid_1'' (canonical_request ''Hi'' (png_image padding) ''veo'')
     = Json200 \<lparr> videoUrl = ''data:video/mp4;base64,Zm9v'', videoBase64 = Some ''Zm9v'',
                 reply_provider = ''veo'', requestId = ''vid_1'' \<rparr>
   \<and> (\<exists>payload. is_base64 payload
          \<and> ''data:video/mp4;base64,Zm9v'' = ''data:video/mp4;base64,'' @ payload
          \<and> Some ''Zm9v'' = Some payload)
   \<and> is_base64 (toBase64 [102, 111, 111])"
proof -
  let ?r = "canonical_request ''Hi'' (png_image padding) ''veo''"
  let ?rep = "\<lparr> videoUrl = ''data:video/mp4;base64,Zm9v'', videoBase64 = Some ''Zm9v'',
                 reply_provider = ''veo'', requestId = ''vid_1'' \<rparr>"
  have 1: "provider ?r \<noteq> Some ''hedra''" "provider ?r \<noteq> Some ''kling''"
    by (simp_all add: canonical_request_def)
  have 2: "generate_video mock_backend ''vid_1'' ?r = Json200 ?rep"
    using veo_run_inline [OF _ mock_submission mock_poll, of "''vid_1''"]
    by (simp add: data_uri_def)
  obtain payload where
    3: "videoUrl ?rep = ''data:video/mp4;base64,'' @ payload"
      "is_base64 payload \<longrightarrow> videoBase64 ?rep = Some payload"
    and 4: "is_base64 (toBase64 [102, 111, 111])"
    using veo_reply_payload [OF 1 2, of "[102, 111, 111]"] by blast
  from 3(1) have "payload = ''Zm9v''" by simp
  moreover have "is_base64 ''Zm9v''"
    by (simp add: is_base64_def base64_alphabet_def)
  ultimately show ?thesis using 2 3 4 by simp
qed

text \<open>
  A completed Hedra request is answered with the URL the provider reports, which is no
  data URI, and without \<^verbatim>\<open>videoBase64\<close>.
\<close>

theorem veo_reply_payload_counterexample:
  "generate_video mock_backend ''vid_1'' (canonical_request ''Hi'' (png_image ''AAAA'') ''hedra'')
     = Json200 \<lparr> videoUrl = ''https://cdn.hedra.com/video-1.mp4'', videoBase64 = None,
                 reply_provider = ''hedra'', requestId = ''vid_1'' \<rparr>
   \<and> \<not> prefix ''data:video/mp4;base64,'' ''https://cdn.hedra.com/video-1.mp4''"
  using hedra_run by simp

end
